theory Spec2Isabelle
  imports Main "HOL-Library.AList" "HOL-Library.Sublist" "HOL-Library.Word"
begin

section \<open>JavaScript values\<close>

text \<open>
  The scoring functions of \<^verbatim>\<open>scoring.js\<close> receive \<^verbatim>\<open>req.body.answers\<close>, the JSON
  body of \<^verbatim>\<open>POST /api/quiz/submit-new\<close>, unvalidated (the handler only checks
  \<^verbatim>\<open>!answers\<close>).  An answer is therefore any JSON value, not only a choice code.
  Numbers are modelled at their integer values; an object holds its own properties in
  order; \<open>JNative\<close> is a built-in function or object reached through
  \<^verbatim>\<open>Object.prototype\<close>, carried with its string rendering.
\<close>

datatype jsval =
    JUndefined
  | JNull
  | JBool bool
  | JNum int
  | JStr string
  | JArr "jsval list"
  | JObj "(string \<times> jsval) list"
  | JNative string

datatype js_error = TypeError string

definition digit_char :: "nat \<Rightarrow> char" where
  "digit_char d = char_of (48 + d)"

fun show_nat :: "nat \<Rightarrow> string" where
  "show_nat n = (if n < 10 then [digit_char n] else show_nat (n div 10) @ [digit_char (n mod 10)])"

declare show_nat.simps [simp del]

definition show_int :: "int \<Rightarrow> string" where
  "show_int i = (if i < 0 then CHR ''-'' # show_nat (nat (- i)) else show_nat (nat i))"

text \<open>Truthiness, as \<^verbatim>\<open>if (answer)\<close> and \<^verbatim>\<open>x || y\<close> test it.\<close>

fun js_truthy :: "jsval \<Rightarrow> bool" where
  "js_truthy JUndefined = False"
| "js_truthy JNull = False"
| "js_truthy (JBool b) = b"
| "js_truthy (JNum n) = (n \<noteq> 0)"
| "js_truthy (JStr s) = (s \<noteq> [])"
| "js_truthy (JArr xs) = True"
| "js_truthy (JObj kvs) = True"
| "js_truthy (JNative r) = True"

definition js_or :: "jsval \<Rightarrow> jsval \<Rightarrow> jsval" where
  "js_or x y = (if js_truthy x then x else y)"

fun js_join :: "string list \<Rightarrow> string" where
  "js_join [] = []"
| "js_join [s] = s"
| "js_join (s # t # ts) = s @ CHR '','' # js_join (t # ts)"

text \<open>
  \<^verbatim>\<open>ToString\<close>, which a property access \<^verbatim>\<open>obj[v]\<close> applies to its key.  An array joins its
  elements with commas (\<^verbatim>\<open>null\<close> and \<^verbatim>\<open>undefined\<close> elements render empty).  An object is
  converted through its \<^verbatim>\<open>toString\<close>: a plain object inherits the one of
  \<^verbatim>\<open>Object.prototype\<close> and renders as \<^verbatim>\<open>[object Object]\<close>; an object parsed from JSON with an
  own property \<^verbatim>\<open>toString\<close> has no callable one (no JSON value is a function) and its
  \<^verbatim>\<open>valueOf\<close> gives no primitive, so the conversion throws a \<^verbatim>\<open>TypeError\<close>.  An array throws
  at its first element that does.
\<close>

definition conversion_error :: js_error where
  "conversion_error = TypeError ''Cannot convert object to primitive value''"

fun js_to_string :: "jsval \<Rightarrow> js_error + string"
  and js_strings :: "jsval list \<Rightarrow> js_error + string list" where
  "js_to_string JUndefined = Inr ''undefined''"
| "js_to_string JNull = Inr ''null''"
| "js_to_string (JBool b) = Inr (if b then ''true'' else ''false'')"
| "js_to_string (JNum n) = Inr (show_int n)"
| "js_to_string (JStr s) = Inr s"
| "js_to_string (JArr xs) =
     (case js_strings xs of Inl e \<Rightarrow> Inl e | Inr ss \<Rightarrow> Inr (js_join ss))"
| "js_to_string (JObj kvs) =
     (if map_of kvs ''toString'' = None then Inr ''[object Object]'' else Inl conversion_error)"
| "js_to_string (JNative r) = Inr r"
| "js_strings [] = Inr []"
| "js_strings (x # xs) =
     (case (if x = JUndefined \<or> x = JNull then Inr [] else js_to_string x) of
        Inl e \<Rightarrow> Inl e
      | Inr s \<Rightarrow> (case js_strings xs of Inl e \<Rightarrow> Inl e | Inr ss \<Rightarrow> Inr (s # ss)))"

text \<open>
  The properties every object literal inherits from \<^verbatim>\<open>Object.prototype\<close> (Node.js), each
  with the rendering of its value: \<^verbatim>\<open>mapping['constructor']\<close> is the function
  \<^verbatim>\<open>Object\<close>, \<^verbatim>\<open>mapping['__proto__']\<close> is \<^verbatim>\<open>Object.prototype\<close> itself.
\<close>

definition native_function :: "string \<Rightarrow> string" where
  "native_function name = ''function '' @ name @ ''() { [native code] }''"

definition object_prototype :: "(string \<times> string) list" where
  "object_prototype =
     [(''constructor'', native_function ''Object''),
      (''__defineGetter__'', native_function ''__defineGetter__''),
      (''__defineSetter__'', native_function ''__defineSetter__''),
      (''hasOwnProperty'', native_function ''hasOwnProperty''),
      (''__lookupGetter__'', native_function ''__lookupGetter__''),
      (''__lookupSetter__'', native_function ''__lookupSetter__''),
      (''isPrototypeOf'', native_function ''isPrototypeOf''),
      (''propertyIsEnumerable'', native_function ''propertyIsEnumerable''),
      (''toString'', native_function ''toString''),
      (''valueOf'', native_function ''valueOf''),
      (''__proto__'', ''[object Object]''),
      (''toLocaleString'', native_function ''toLocaleString'')]"

text \<open>
  \<^verbatim>\<open>mapping[key]\<close> on an object literal whose own properties are strings; it throws when
  the conversion of the key does.
\<close>

definition literal_get :: "(string \<times> string) list \<Rightarrow> jsval \<Rightarrow> js_error + jsval" where
  "literal_get obj key =
     (case js_to_string key of
        Inl e \<Rightarrow> Inl e
      | Inr k \<Rightarrow>
          Inr (case map_of obj k of
                 Some v \<Rightarrow> JStr v
               | None \<Rightarrow>
                   (case map_of object_prototype k of
                      Some r \<Rightarrow> JNative r
                    | None \<Rightarrow> JUndefined)))"

text \<open>A loop whose body may throw: the first exception ends it.\<close>

fun for_loop :: "('s \<Rightarrow> 'i \<Rightarrow> js_error + 's) \<Rightarrow> 's \<Rightarrow> 'i list \<Rightarrow> js_error + 's" where
  "for_loop body s [] = Inr s"
| "for_loop body s (i # rest) =
     (case body s i of Inl e \<Rightarrow> Inl e | Inr s' \<Rightarrow> for_loop body s' rest)"

text \<open>
  The answer map: \<^verbatim>\<open>answers[qid]\<close> is the own property or \<^verbatim>\<open>undefined\<close> (no question
  id is a property of \<^verbatim>\<open>Object.prototype\<close>).
\<close>

type_synonym answers = "string \<rightharpoonup> jsval"

definition get_answer :: "answers \<Rightarrow> string \<Rightarrow> jsval" where
  "get_answer answers qid = (case answers qid of None \<Rightarrow> JUndefined | Some v \<Rightarrow> v)"

section \<open>Layer 1: Decision Identity\<close>

record layer1_result =
  l1_type :: string
  architectCount :: nat
  alchemistCount :: nat

definition l1_step :: "answers \<Rightarrow> nat \<times> nat \<Rightarrow> nat \<Rightarrow> nat \<times> nat" where
  "l1_step answers acc i =
     (let answer = get_answer answers (''L1_Q'' @ show_nat i);
          architectCount = (if answer = JStr ''a'' then fst acc + 1 else fst acc);
          alchemistCount = (if answer = JStr ''b'' then snd acc + 1 else snd acc)
      in (architectCount, alchemistCount))"

definition calculateLayer1 :: "answers \<Rightarrow> layer1_result" where
  "calculateLayer1 answers =
     (let counts = foldl (l1_step answers) (0, 0) [1..<9];
          architectCount = fst counts;
          alchemistCount = snd counts;
          type =
            (if architectCount = 8 \<and> alchemistCount = 0 then ''Strong Architect''
             else if architectCount = 7 \<and> alchemistCount = 1 then ''Medium Architect''
             else if architectCount = 6 \<and> alchemistCount = 2 then ''Weak Architect''
             else if architectCount = 0 \<and> alchemistCount = 8 then ''Strong Alchemist''
             else if architectCount = 1 \<and> alchemistCount = 7 then ''Medium Alchemist''
             else if architectCount = 2 \<and> alchemistCount = 6 then ''Weak Alchemist''
             else ''Blurred'')
      in \<lparr>l1_type = type, architectCount = architectCount, alchemistCount = alchemistCount\<rparr>)"

text \<open>
  The classification as the specification words it: an exact-match table over the pair of
  counts, every pair outside the table being \<^verbatim>\<open>Blurred\<close>; and the counts as the numbers of
  questions \<^verbatim>\<open>L1_Q1\<close> .. \<^verbatim>\<open>L1_Q8\<close> whose answer is the given code.
\<close>

definition l1_table :: "((nat \<times> nat) \<times> string) list" where
  "l1_table =
     [((8, 0), ''Strong Architect''), ((7, 1), ''Medium Architect''), ((6, 2), ''Weak Architect''),
      ((0, 8), ''Strong Alchemist''), ((1, 7), ''Medium Alchemist''), ((2, 6), ''Weak Alchemist'')]"

definition l1_classify_spec :: "nat \<Rightarrow> nat \<Rightarrow> string" where
  "l1_classify_spec a b = (case map_of l1_table (a, b) of Some t \<Rightarrow> t | None \<Rightarrow> ''Blurred'')"

definition l1_count_spec :: "answers \<Rightarrow> string \<Rightarrow> nat" where
  "l1_count_spec answers code =
     card {i. 1 \<le> i \<and> i \<le> 8 \<and> answers (''L1_Q'' @ show_nat i) = Some (JStr code)}"

section \<open>Layer 2: Execution Style Subtype\<close>

record layer2_result =
  l2_subtype :: string
  l2_path :: string
  l2_scores :: "(string \<times> nat) list"

text \<open>\<^verbatim>\<open>String.prototype.includes\<close>: the pattern occurs somewhere in the string.\<close>

fun js_includes :: "string \<Rightarrow> string \<Rightarrow> bool" where
  "js_includes [] p = (p = [])"
| "js_includes (c # cs) p = (prefix p (c # cs) \<or> js_includes cs p)"

definition js_toUpperCase_char :: "char \<Rightarrow> char" where
  "js_toUpperCase_char c =
     (let n = (of_char c :: nat) in if 97 \<le> n \<and> n \<le> 122 then char_of (n - 32) else c)"

text \<open>\<^verbatim>\<open>s.charAt(0).toUpperCase() + s.slice(1)\<close>; the empty string stays empty.\<close>

definition capitalize :: "string \<Rightarrow> string" where
  "capitalize s = (case s of [] \<Rightarrow> [] | c # cs \<Rightarrow> js_toUpperCase_char c # cs)"

definition l2_mapping_architect :: "(string \<times> string) list" where
  "l2_mapping_architect =
     [(''a'', ''planner''), (''b'', ''operator''), (''c'', ''analyst''), (''d'', ''ultimate'')]"

definition l2_mapping_alchemist :: "(string \<times> string) list" where
  "l2_mapping_alchemist =
     [(''a'', ''oracle''), (''b'', ''perfectionist''), (''c'', ''empath''), (''d'', ''ultimate'')]"

text \<open>
  \<^verbatim>\<open>scores[scoreKey] = (scores[scoreKey] || 0) + 1\<close> on the object \<^verbatim>\<open>scores\<close>, kept as an
  association list in insertion order (the order \<^verbatim>\<open>Object.entries\<close> walks).  A key that
  is not a string is converted by \<^verbatim>\<open>ToString\<close>.
\<close>

definition l2_increment :: "(string \<times> nat) list \<Rightarrow> string \<Rightarrow> (string \<times> nat) list" where
  "l2_increment scores k =
     AList.update k ((case map_of scores k of None \<Rightarrow> 0 | Some n \<Rightarrow> n) + 1) scores"

text \<open>
  One round of the loop over \<^verbatim>\<open>i = 9 .. 16\<close>.  Only the paths \<^verbatim>\<open>architect\<close> and
  \<^verbatim>\<open>alchemist\<close> read \<^verbatim>\<open>mapping[answer]\<close> and assign \<^verbatim>\<open>scoreKey\<close>; on any other path it
  keeps its initial value, the empty string.
\<close>

definition l2_step ::
  "answers \<Rightarrow> string \<Rightarrow> string \<Rightarrow> (string \<times> nat) list \<Rightarrow> nat \<Rightarrow> js_error + (string \<times> nat) list" where
  "l2_step answers path questionPrefix scores i =
     (let qid = (if path = ''alchemist'' then questionPrefix @ show_nat i @ ''a''
                 else questionPrefix @ show_nat i);
          answer = get_answer answers qid
      in if js_truthy answer then
           (case (if path = ''architect'' then literal_get l2_mapping_architect answer
                  else if path = ''alchemist'' then literal_get l2_mapping_alchemist answer
                  else Inr (JStr [])) of
              Inl e \<Rightarrow> Inl e
            | Inr found \<Rightarrow>
                (let scoreKey = js_or found (JStr [])
                 in if js_truthy scoreKey then
                      (case js_to_string scoreKey of
                         Inl e \<Rightarrow> Inl e
                       | Inr k \<Rightarrow> Inr (l2_increment scores k))
                    else Inr scores))
         else Inr scores)"

text \<open>The arg-max loop: a later entry wins only with a strictly greater count.\<close>

definition l2_dominant_step :: "string \<times> nat \<Rightarrow> string \<times> nat \<Rightarrow> string \<times> nat" where
  "l2_dominant_step acc entry = (if snd entry > snd acc then (fst entry, snd entry) else acc)"

definition calculateLayer2 :: "answers \<Rightarrow> layer1_result \<Rightarrow> js_error + layer2_result" where
  "calculateLayer2 answers layer1Result =
     (let sel =
            (if js_includes (l1_type layer1Result) ''Architect'' then (''architect'', ''L2_Q'')
             else if js_includes (l1_type layer1Result) ''Alchemist'' then (''alchemist'', ''L2_Q'')
             else (''mixed'', ''L2_Qm''));
          path = fst sel;
          questionPrefix = snd sel
      in case for_loop (l2_step answers path questionPrefix) [] [9..<17] of
           Inl e \<Rightarrow> Inl e
         | Inr scores \<Rightarrow>
             (let subtype = fst (foldl l2_dominant_step ([], 0) scores)
              in Inr \<lparr>l2_subtype = capitalize subtype, l2_path = path, l2_scores = scores\<rparr>))"

section \<open>Layer 3: Mirror Awareness\<close>

record l3_dimension =
  l3_score :: nat
  l3_label :: string

record layer3_result =
  l3_totalScore :: nat
  l3_maxScore :: nat
  l3_dimensions :: "(string \<times> l3_dimension) list"

definition l3_dimensionMap :: "(string \<times> string \<times> string list) list" where
  "l3_dimensionMap =
     [(''L3_Q17'', ''Validator Awareness'', [''Opposite'', ''Partial'', ''Full'']),
      (''L3_Q18'', ''Emotional Regulation'', [''Reactive'', ''Aware'', ''Integrated'']),
      (''L3_Q19'', ''Feedback Processing'', [''Defensive'', ''Selective'', ''Open'']),
      (''L3_Q20'', ''Blind Spot Recognition'', [''Unaware'', ''Emerging'', ''Aware'']),
      (''L3_Q21'', ''Self-Correction Speed'', [''Slow'', ''Moderate'', ''Fast'']),
      (''L3_Q22'', ''Growth Orientation'', [''Fixed'', ''Mixed'', ''Growth''])]"

definition l3_step ::
  "answers \<Rightarrow> nat \<times> (string \<times> l3_dimension) list \<Rightarrow> string \<times> string \<times> string list
     \<Rightarrow> nat \<times> (string \<times> l3_dimension) list" where
  "l3_step answers acc entry =
     (let qid = fst entry; name = fst (snd entry); labels = snd (snd entry);
          answer = get_answer answers qid;
          sl = (if answer = JStr ''a'' then (0, labels ! 0)
                else if answer = JStr ''b'' then (1, labels ! 1)
                else if answer = JStr ''c'' then (2, labels ! 2)
                else (0, []))
      in (fst acc + fst sl,
          AList.update name \<lparr>l3_score = fst sl, l3_label = snd sl\<rparr> (snd acc)))"

definition calculateLayer3 :: "answers \<Rightarrow> layer3_result" where
  "calculateLayer3 answers =
     (let r = foldl (l3_step answers) (0, []) l3_dimensionMap
      in \<lparr>l3_totalScore = fst r, l3_maxScore = 12, l3_dimensions = snd r\<rparr>)"

section \<open>Layer 4: Learning Style (VARK)\<close>

text \<open>
  The numbers this layer computes with: a count, or what \<^verbatim>\<open>undefined + 1\<close> and \<^verbatim>\<open>0 / 0\<close>
  give (\<^verbatim>\<open>NaN\<close>), or what a positive count divided by zero gives.
\<close>

datatype jsnum = Num int | NaN | PosInfinity

fun js_add :: "jsnum \<Rightarrow> jsnum \<Rightarrow> jsnum" where
  "js_add (Num a) (Num b) = Num (a + b)"
| "js_add NaN y = NaN"
| "js_add x NaN = NaN"
| "js_add PosInfinity y = PosInfinity"
| "js_add x PosInfinity = PosInfinity"

text \<open>\<^verbatim>\<open>x > y\<close>: every comparison with \<^verbatim>\<open>NaN\<close> is false.\<close>

fun js_gt :: "jsnum \<Rightarrow> jsnum \<Rightarrow> bool" where
  "js_gt (Num a) (Num b) = (a > b)"
| "js_gt PosInfinity (Num b) = True"
| "js_gt x y = False"

text \<open>
  \<^verbatim>\<open>Math.round((s / total) * 100)\<close>.  Division by zero does not throw: \<^verbatim>\<open>0 / 0\<close> is
  \<^verbatim>\<open>NaN\<close>, and \<^verbatim>\<open>Math.round(NaN)\<close> is \<^verbatim>\<open>NaN\<close>.  For counts \<open>0 \<le> s \<le> total \<le> 5\<close>, all the
  loop can produce, the rounding of the quotient (half up) is that of the exact fraction.
\<close>

fun js_percentage :: "jsnum \<Rightarrow> jsnum \<Rightarrow> jsnum" where
  "js_percentage (Num s) (Num t) =
     (if t = 0 then (if s = 0 then NaN else PosInfinity)
      else Num ((200 * s + t) div (2 * t)))"
| "js_percentage NaN t = NaN"
| "js_percentage s NaN = NaN"
| "js_percentage PosInfinity (Num t) = PosInfinity"
| "js_percentage PosInfinity PosInfinity = NaN"
| "js_percentage (Num s) PosInfinity = Num 0"

record l4_percentages =
  p_visual :: jsnum
  p_auditory :: jsnum
  p_readWrite :: jsnum
  p_kinesthetic :: jsnum

record layer4_result =
  l4_dominantModality :: string
  l4_scores :: "(string \<times> jsnum) list"
  l4_percentages :: l4_percentages

definition l4_mapping :: "(string \<times> string) list" where
  "l4_mapping =
     [(''a'', ''visual''), (''b'', ''auditory''), (''c'', ''readWrite''), (''d'', ''kinesthetic'')]"

definition l4_initial_scores :: "(string \<times> jsnum) list" where
  "l4_initial_scores =
     [(''visual'', Num 0), (''auditory'', Num 0), (''readWrite'', Num 0), (''kinesthetic'', Num 0)]"

text \<open>\<^verbatim>\<open>scores.key\<close>; a property that is not there reads \<^verbatim>\<open>undefined\<close>, a \<^verbatim>\<open>NaN\<close> in arithmetic.\<close>

definition l4_get :: "(string \<times> jsnum) list \<Rightarrow> string \<Rightarrow> jsnum" where
  "l4_get scores k = (case map_of scores k of None \<Rightarrow> NaN | Some v \<Rightarrow> v)"

text \<open>\<^verbatim>\<open>scores[key]++\<close>.\<close>

definition l4_increment :: "(string \<times> jsnum) list \<Rightarrow> string \<Rightarrow> (string \<times> jsnum) list" where
  "l4_increment scores k = AList.update k (js_add (l4_get scores k) (Num 1)) scores"

text \<open>
  One round of the loop over \<^verbatim>\<open>i = 23 .. 27\<close>: \<^verbatim>\<open>answer && mapping[answer]\<close> reads the
  mapping only for a truthy answer.
\<close>

definition l4_step ::
  "answers \<Rightarrow> (string \<times> jsnum) list \<Rightarrow> nat \<Rightarrow> js_error + (string \<times> jsnum) list" where
  "l4_step answers scores i =
     (let answer = get_answer answers (''L4_Q'' @ show_nat i)
      in if js_truthy answer then
           (case literal_get l4_mapping answer of
              Inl e \<Rightarrow> Inl e
            | Inr bucket \<Rightarrow>
                if js_truthy bucket then
                  (case js_to_string bucket of
                     Inl e \<Rightarrow> Inl e
                   | Inr k \<Rightarrow> Inr (l4_increment scores k))
                else Inr scores)
         else Inr scores)"

definition l4_dominant_step :: "string \<times> jsnum \<Rightarrow> string \<times> jsnum \<Rightarrow> string \<times> jsnum" where
  "l4_dominant_step acc entry = (if js_gt (snd entry) (snd acc) then (fst entry, snd entry) else acc)"

definition calculateLayer4 :: "answers \<Rightarrow> js_error + layer4_result" where
  "calculateLayer4 answers =
     (case for_loop (l4_step answers) l4_initial_scores [23..<28] of
        Inl e \<Rightarrow> Inl e
      | Inr scores \<Rightarrow>
          (let tot = foldl js_add (Num 0) (map snd scores);
               percentages =
                 \<lparr>p_visual = js_percentage (l4_get scores ''visual'') tot,
                  p_auditory = js_percentage (l4_get scores ''auditory'') tot,
                  p_readWrite = js_percentage (l4_get scores ''readWrite'') tot,
                  p_kinesthetic = js_percentage (l4_get scores ''kinesthetic'') tot\<rparr>;
               dominantModality =
                 fst (foldl l4_dominant_step (''visual'', l4_get scores ''visual'') scores)
           in Inr \<lparr>l4_dominantModality = dominantModality, l4_scores = scores,
                   l4_percentages = percentages\<rparr>))"

section \<open>Layer 5: Neuro Performance\<close>

record layer5_result =
  l5_profile :: "(string \<times> jsval) list"

definition l5_dimensions :: "(string \<times> string) list" where
  "l5_dimensions =
     [(''L5_Q28'', ''Focus Pattern''), (''L5_Q29'', ''Processing Speed''),
      (''L5_Q30'', ''Energy Pattern''), (''L5_Q31'', ''Task Switching''),
      (''L5_Q32'', ''Stress Response''), (''L5_Q33'', ''Recovery Pattern'')]"

definition l5_step :: "answers \<Rightarrow> (string \<times> jsval) list \<Rightarrow> string \<times> string \<Rightarrow> (string \<times> jsval) list" where
  "l5_step answers profile dim =
     (let answer = get_answer answers (fst dim)
      in if js_truthy answer then AList.update (snd dim) answer profile else profile)"

definition calculateLayer5 :: "answers \<Rightarrow> layer5_result" where
  "calculateLayer5 answers = \<lparr>l5_profile = foldl (l5_step answers) [] l5_dimensions\<rparr>"

section \<open>Layer 6: Mindset and Personality\<close>

record l6_mindset =
  growthFixed :: string
  abundanceScarcity :: string
  challengeComfort :: string

record l6_personality =
  coreType :: string
  communicationStyle :: string

record layer6_result =
  l6_mindset :: l6_mindset
  l6_personality :: l6_personality

definition calculateLayer6 :: "answers \<Rightarrow> layer6_result" where
  "calculateLayer6 answers =
     (let mindset =
            \<lparr>growthFixed = (if get_answer answers ''L6_Q34'' = JStr ''a'' then ''Growth'' else ''Fixed''),
             abundanceScarcity =
               (if get_answer answers ''L6_Q35'' = JStr ''a'' then ''Abundance'' else ''Scarcity''),
             challengeComfort =
               (if get_answer answers ''L6_Q36'' = JStr ''a'' then ''Challenge'' else ''Comfort'')\<rparr>;
          q37 = get_answer answers ''L6_Q37'';
          q38 = get_answer answers ''L6_Q38'';
          coreType =
            (if q37 = JStr ''a'' \<and> q38 = JStr ''a'' then ''Confident & Steady''
             else if q37 = JStr ''a'' \<and> q38 = JStr ''b'' then ''Confident & Driven''
             else if q37 = JStr ''b'' \<and> q38 = JStr ''a'' then ''Considerate & Steady''
             else if q37 = JStr ''b'' \<and> q38 = JStr ''b'' then ''Fast-Moving & Adaptive''
             else []);
          communicationStyle =
            (if get_answer answers ''L6_Q39'' = JStr ''a'' then ''Direct Communicator''
             else ''Diplomatic Communicator'')
      in \<lparr>l6_mindset = mindset,
          l6_personality = \<lparr>coreType = coreType, communicationStyle = communicationStyle\<rparr>\<rparr>)"

text \<open>
  The core type as the specification words it: a two-by-two table over the answers to
  \<^verbatim>\<open>L6_Q37\<close> and \<^verbatim>\<open>L6_Q38\<close>, every pair outside the table giving the empty string.
\<close>

definition l6_core_table :: "((jsval \<times> jsval) \<times> string) list" where
  "l6_core_table =
     [((JStr ''a'', JStr ''a''), ''Confident & Steady''),
      ((JStr ''a'', JStr ''b''), ''Confident & Driven''),
      ((JStr ''b'', JStr ''a''), ''Considerate & Steady''),
      ((JStr ''b'', JStr ''b''), ''Fast-Moving & Adaptive'')]"

definition l6_coreType_spec :: "jsval \<Rightarrow> jsval \<Rightarrow> string" where
  "l6_coreType_spec q37 q38 = (case map_of l6_core_table (q37, q38) of Some t \<Rightarrow> t | None \<Rightarrow> [])"

section \<open>Layer 7: Meta-Beliefs and Values\<close>

record layer7_result =
  l7_beliefs :: "(string \<times> string) list"

definition l7_mapping :: "(string \<times> string \<times> string list) list" where
  "l7_mapping =
     [(''L7_Q40'', ''Grounding Source'', [''Self-Reliant'', ''Faith-Reliant'', ''Dual-Reliant'']),
      (''L7_Q41'', ''Control Belief'', [''I'' @ [CHR 0x27] @ ''m In Control'', ''Life Influences Me'', ''Shared Control'']),
      (''L7_Q42'', ''Fairness View'', [''Responsibility View'', ''Compassion View'', ''Balanced View'']),
      (''L7_Q43'', ''Honesty Style'', [''Direct Honesty'', ''Gentle Honesty'', ''Balanced Honesty'']),
      (''L7_Q44'', ''Growth Approach'', [''Growth Focused'', ''Comfort Focused'', ''Steady Growth'']),
      (''L7_Q45'', ''Impact Motivation'',
         [''Self-Focused Impact'', ''Others-Focused Impact'', ''Shared Impact''])]"

text \<open>
  \<^verbatim>\<open>data.labels[answer.charCodeAt(0) - 97] || ''\<close>.  Only a string has the method
  \<^verbatim>\<open>charCodeAt\<close>: on a number, a boolean, an array or an object the call throws a
  \<^verbatim>\<open>TypeError\<close>.  An index outside the array reads \<^verbatim>\<open>undefined\<close>.
\<close>

definition l7_label :: "string list \<Rightarrow> jsval \<Rightarrow> js_error + string" where
  "l7_label labels answer =
     (case answer of
        JStr s \<Rightarrow>
          (case s of
             [] \<Rightarrow> Inr []
           | c # cs \<Rightarrow>
               (let index = int (of_char c) - 97
                in Inr (if 0 \<le> index \<and> index < int (length labels) then labels ! nat index else [])))
      | _ \<Rightarrow> Inl (TypeError ''answer.charCodeAt is not a function''))"

fun l7_loop ::
  "answers \<Rightarrow> (string \<times> string \<times> string list) list \<Rightarrow> (string \<times> string) list
     \<Rightarrow> js_error + (string \<times> string) list" where
  "l7_loop answers [] beliefs = Inr beliefs"
| "l7_loop answers ((qid, name, labels) # rest) beliefs =
     (let answer = get_answer answers qid
      in if js_truthy answer then
           (case l7_label labels answer of
              Inl e \<Rightarrow> Inl e
            | Inr l \<Rightarrow> l7_loop answers rest (AList.update name l beliefs))
         else l7_loop answers rest beliefs)"

definition calculateLayer7 :: "answers \<Rightarrow> js_error + layer7_result" where
  "calculateLayer7 answers =
     (case l7_loop answers l7_mapping [] of
        Inl e \<Rightarrow> Inl e
      | Inr beliefs \<Rightarrow> Inr \<lparr>l7_beliefs = beliefs\<rparr>)"

section \<open>All seven layers\<close>

record all_results =
  layer1 :: layer1_result
  layer2 :: layer2_result
  layer3 :: layer3_result
  layer4 :: layer4_result
  layer5 :: layer5_result
  layer6 :: layer6_result
  layer7 :: layer7_result

text \<open>
  The layers run in order; an exception in one of them leaves the function at once, and
  no result object is built.
\<close>

definition calculateAllResults :: "answers \<Rightarrow> js_error + all_results" where
  "calculateAllResults answers =
     (let layer1 = calculateLayer1 answers
      in case calculateLayer2 answers layer1 of
           Inl e \<Rightarrow> Inl e
         | Inr l2 \<Rightarrow>
             (let layer3 = calculateLayer3 answers
              in case calculateLayer4 answers of
                   Inl e \<Rightarrow> Inl e
                 | Inr l4 \<Rightarrow>
                     (let layer5 = calculateLayer5 answers;
                          layer6 = calculateLayer6 answers
                      in case calculateLayer7 answers of
                           Inl e \<Rightarrow> Inl e
                         | Inr l7 \<Rightarrow>
                             Inr \<lparr>layer1 = layer1, layer2 = l2, layer3 = layer3, layer4 = l4,
                                  layer5 = layer5, layer6 = layer6, layer7 = l7\<rparr>)))"

section \<open>The PostgreSQL store\<close>

text \<open>
  The tables \<^verbatim>\<open>quiz_results\<close> and \<^verbatim>\<open>pdf_download_tokens\<close> of \<^verbatim>\<open>initializeDatabase\<close>, each a
  list of rows in table order.  A timestamp is a number of milliseconds; every operation
  takes the time of its call, the value of \<^verbatim>\<open>CURRENT_TIMESTAMP\<close>, as an argument.  A cell
  holds the value the statement binds to it (\<open>JNull\<close> is SQL \<^verbatim>\<open>NULL\<close>); of PostgreSQL's
  checks, the primary keys, the foreign key and the \<^verbatim>\<open>VARCHAR\<close> lengths are modelled, the
  syntax of the \<^verbatim>\<open>UUID\<close>, \<^verbatim>\<open>INTEGER\<close> and \<^verbatim>\<open>JSONB\<close> types is not.  The database is reachable:
  no connection or network failure is modelled.
\<close>

type_synonym timestamp = nat

record quiz_result_row =
  qr_id :: string
  qr_user_id :: jsval
  qr_email :: string
  qr_name :: jsval
  qr_quiz_data :: jsval
  qr_edna_type :: jsval
  qr_core_type :: jsval
  qr_subtype :: jsval
  qr_core_mastery :: jsval
  qr_subtype_mastery :: jsval
  qr_pdf_url :: jsval
  qr_s3_key :: jsval
  qr_created_at :: timestamp
  qr_updated_at :: timestamp

record token_row =
  t_token :: string
  t_quiz_result_id :: string
  t_expires_at :: timestamp
  t_created_at :: timestamp

record database =
  quiz_results :: "quiz_result_row list"
  pdf_download_tokens :: "token_row list"

datatype failure = Message string | Thrown js_error | Rejected string

datatype 'a db_result = Success 'a | Failure failure

subsection \<open>Strings in JavaScript and in SQL\<close>

text \<open>
  Strings are strings of 8-bit characters: case folding and white space are those of ASCII
  (JavaScript and PostgreSQL also fold and strip characters beyond it).
\<close>

definition lower_char :: "char \<Rightarrow> char" where
  "lower_char c =
     (let n = (of_char c :: nat) in if 65 \<le> n \<and> n \<le> 90 then char_of (n + 32) else c)"

definition js_toLowerCase :: "string \<Rightarrow> string" where
  "js_toLowerCase s = map lower_char s"

text \<open>\<^verbatim>\<open>String.prototype.trim\<close> strips white space and line terminators from both ends.\<close>

definition js_whitespace :: "char \<Rightarrow> bool" where
  "js_whitespace c = ((of_char c :: nat) \<in> {9, 10, 11, 12, 13, 32})"

definition js_trim :: "string \<Rightarrow> string" where
  "js_trim s = rev (dropWhile js_whitespace (rev (dropWhile js_whitespace s)))"

text \<open>SQL \<^verbatim>\<open>TRIM\<close> strips spaces only; \<^verbatim>\<open>LOWER\<close> folds the letters.\<close>

definition sql_trim :: "string \<Rightarrow> string" where
  "sql_trim s = rev (dropWhile (\<lambda>c. c = CHR '' '') (rev (dropWhile (\<lambda>c. c = CHR '' '') s)))"

definition sql_lower :: "string \<Rightarrow> string" where
  "sql_lower s = map lower_char s"

text \<open>
  \<^verbatim>\<open>subject LIKE pattern\<close>: in the pattern \<^verbatim>\<open>%\<close> matches any run of characters, \<^verbatim>\<open>_\<close> any
  one character, and a backslash makes the character after it literal.  (A pattern that
  ends in a lone backslash is an error in PostgreSQL; the patterns built below end in
  \<^verbatim>\<open>%\<close>, and the model lets such a pattern match nothing.)
\<close>

fun sql_like :: "string \<Rightarrow> string \<Rightarrow> bool" where
  "sql_like [] s = (s = [])"
| "sql_like (p # ps) [] =
     (if p = CHR ''%'' then sql_like ps [] else False)"
| "sql_like (p # ps) (c # cs) =
     (if p = CHR ''%'' then sql_like ps (c # cs) \<or> sql_like (p # ps) cs
      else if p = CHR ''_'' then sql_like ps cs
      else if p = CHR 0x5C then
        (case ps of [] \<Rightarrow> False | q # qs \<Rightarrow> c = q \<and> sql_like qs cs)
      else c = p \<and> sql_like ps cs)"

text \<open>\<^verbatim>\<open>subject ILIKE pattern\<close>: \<^verbatim>\<open>LIKE\<close> without regard to case.\<close>

definition sql_ilike :: "string \<Rightarrow> string \<Rightarrow> bool" where
  "sql_ilike subject pattern = sql_like (sql_lower pattern) (sql_lower subject)"

text \<open>
  \<^verbatim>\<open>ORDER BY created_at DESC LIMIT 1\<close>: a row of the greatest \<^verbatim>\<open>created_at\<close>.  Among rows of
  equal \<^verbatim>\<open>created_at\<close> SQL leaves the choice open; the model takes the first in table order.
\<close>

definition newer :: "quiz_result_row option \<Rightarrow> quiz_result_row \<Rightarrow> quiz_result_row option" where
  "newer best r =
     (case best of
        None \<Rightarrow> Some r
      | Some b \<Rightarrow> if qr_created_at r > qr_created_at b then Some r else Some b)"

definition order_by_created_at_desc_limit_1 :: "quiz_result_row list \<Rightarrow> quiz_result_row option" where
  "order_by_created_at_desc_limit_1 rows = foldl newer None rows"

subsection \<open>saveQuizResult\<close>

text \<open>
  \<^verbatim>\<open>results.key\<close>: reading a property of \<^verbatim>\<open>null\<close> or \<^verbatim>\<open>undefined\<close> throws; a property
  that is not there reads \<^verbatim>\<open>undefined\<close>.
\<close>

definition js_nullish :: "jsval \<Rightarrow> bool" where
  "js_nullish v = (v = JUndefined \<or> v = JNull)"

definition js_get :: "jsval \<Rightarrow> string \<Rightarrow> jsval" where
  "js_get obj key =
     (case obj of
        JObj kvs \<Rightarrow> (case map_of kvs key of None \<Rightarrow> JUndefined | Some v \<Rightarrow> v)
      | _ \<Rightarrow> JUndefined)"

text \<open>
  The \<^verbatim>\<open>TypeError\<close> of a method call \<^verbatim>\<open>v.m()\<close> on a value without the method, and of a
  property read \<^verbatim>\<open>v.key\<close> on \<^verbatim>\<open>null\<close> or \<^verbatim>\<open>undefined\<close>, with the engine's message (short of
  its note on what was read).
\<close>

definition js_no_method :: "jsval \<Rightarrow> string \<Rightarrow> js_error" where
  "js_no_method v call =
     (if v = JUndefined then TypeError ''Cannot read properties of undefined''
      else if v = JNull then TypeError ''Cannot read properties of null''
      else TypeError (call @ '' is not a function''))"

text \<open>The array \<^verbatim>\<open>values\<close>: the eleven parameters \<^verbatim>\<open>$1\<close> .. \<^verbatim>\<open>$11\<close> of the statement.\<close>

record save_values =
  v_id :: string
  v_email :: string
  v_name :: jsval
  v_quiz_data :: jsval
  v_edna_type :: jsval
  v_core_type :: jsval
  v_subtype :: jsval
  v_core_mastery :: jsval
  v_subtype_mastery :: jsval
  v_pdf_url :: jsval
  v_s3_key :: jsval

text \<open>The driver binds \<^verbatim>\<open>undefined\<close> as \<^verbatim>\<open>NULL\<close>.\<close>

definition pg_param :: "jsval \<Rightarrow> jsval" where
  "pg_param v = (if v = JUndefined then JNull else v)"

definition save_values_of ::
  "string \<Rightarrow> jsval \<Rightarrow> jsval \<Rightarrow> jsval \<Rightarrow> jsval \<Rightarrow> jsval \<Rightarrow> js_error + save_values" where
  "save_values_of rid email name results pdfUrl s3Key =
     (case email of
        JStr e \<Rightarrow>
          (let normalizedEmail = js_trim (js_toLowerCase e)
           in if js_nullish results then Inl (js_no_method results ''results.ednaType'')
              else
                Inr \<lparr>v_id = rid,
                     v_email = normalizedEmail,
                     v_name = pg_param name,
                     v_quiz_data = results,
                     v_edna_type = js_or (js_get results ''ednaType'') JNull,
                     v_core_type = js_or (js_get results ''coreType'') JNull,
                     v_subtype = js_or (js_get results ''subtype'') JNull,
                     v_core_mastery = js_or (js_get results ''coreTypeMastery'') JNull,
                     v_subtype_mastery = js_or (js_get results ''subtypeMastery'') JNull,
                     v_pdf_url = pg_param pdfUrl,
                     v_s3_key = pg_param s3Key\<rparr>)
      | _ \<Rightarrow> Inl (js_no_method email ''email.toLowerCase''))"

text \<open>The \<^verbatim>\<open>VARCHAR(n)\<close> columns reject a longer string.\<close>

definition varchar_ok :: "nat \<Rightarrow> jsval \<Rightarrow> bool" where
  "varchar_ok n v = (case v of JStr s \<Rightarrow> length s \<le> n | _ \<Rightarrow> True)"

definition quiz_results_accepts :: "save_values \<Rightarrow> bool" where
  "quiz_results_accepts v =
     (length (v_email v) \<le> 255 \<and> varchar_ok 255 (v_name v) \<and> varchar_ok 100 (v_edna_type v)
      \<and> varchar_ok 50 (v_core_type v) \<and> varchar_ok 50 (v_subtype v))"

text \<open>The row an \<^verbatim>\<open>INSERT\<close> of the values creates: both timestamps default to the current time.\<close>

definition inserted_row :: "timestamp \<Rightarrow> save_values \<Rightarrow> quiz_result_row" where
  "inserted_row now v =
     \<lparr>qr_id = v_id v, qr_user_id = JNull, qr_email = v_email v, qr_name = v_name v,
      qr_quiz_data = v_quiz_data v, qr_edna_type = v_edna_type v, qr_core_type = v_core_type v,
      qr_subtype = v_subtype v, qr_core_mastery = v_core_mastery v,
      qr_subtype_mastery = v_subtype_mastery v, qr_pdf_url = v_pdf_url v, qr_s3_key = v_s3_key v,
      qr_created_at = now, qr_updated_at = now\<rparr>"

text \<open>
  \<^verbatim>\<open>ON CONFLICT (id) DO UPDATE SET ...\<close>: the columns the statement lists take the new
  values; \<^verbatim>\<open>id\<close>, \<^verbatim>\<open>user_id\<close>, \<^verbatim>\<open>email\<close>, \<^verbatim>\<open>name\<close> and \<^verbatim>\<open>created_at\<close> keep the old ones.
\<close>

definition updated_row :: "timestamp \<Rightarrow> save_values \<Rightarrow> quiz_result_row \<Rightarrow> quiz_result_row" where
  "updated_row now v r =
     r\<lparr>qr_quiz_data := v_quiz_data v, qr_edna_type := v_edna_type v, qr_core_type := v_core_type v,
       qr_subtype := v_subtype v, qr_core_mastery := v_core_mastery v,
       qr_subtype_mastery := v_subtype_mastery v, qr_pdf_url := v_pdf_url v,
       qr_s3_key := v_s3_key v, qr_updated_at := now\<rparr>"

definition upsert :: "timestamp \<Rightarrow> save_values \<Rightarrow> quiz_result_row list \<Rightarrow> quiz_result_row list" where
  "upsert now v rows =
     (if \<exists>r \<in> set rows. qr_id r = v_id v
      then map (\<lambda>r. if qr_id r = v_id v then updated_row now v r else r) rows
      else rows @ [inserted_row now v])"

text \<open>\<^verbatim>\<open>RETURNING *\<close> and \<^verbatim>\<open>result.rows[0]\<close>: the row as it now stands.\<close>

definition saveQuizResult ::
  "database \<Rightarrow> timestamp \<Rightarrow> string \<Rightarrow> jsval \<Rightarrow> jsval \<Rightarrow> jsval \<Rightarrow> jsval \<Rightarrow> jsval
     \<Rightarrow> database \<times> quiz_result_row db_result" where
  "saveQuizResult db now rid email name results pdfUrl s3Key =
     (case save_values_of rid email name results pdfUrl s3Key of
        Inl err \<Rightarrow> (db, Failure (Thrown err))
      | Inr v \<Rightarrow>
          if quiz_results_accepts v then
            (let rows = upsert now v (quiz_results db)
             in case find (\<lambda>r. qr_id r = v_id v) rows of
                  Some r \<Rightarrow> (db\<lparr>quiz_results := rows\<rparr>, Success r)
                | None \<Rightarrow> (db, Failure (Rejected ''no row returned'')))
          else (db, Failure (Rejected ''value too long for type character varying'')))"

subsection \<open>getQuizResultByEmail\<close>

definition getQuizResultByEmail :: "database \<Rightarrow> jsval \<Rightarrow> quiz_result_row db_result" where
  "getQuizResultByEmail db email =
     (case email of
        JStr e \<Rightarrow>
          (let normalizedEmail = js_trim (js_toLowerCase e);
               result = order_by_created_at_desc_limit_1
                          (filter (\<lambda>r. sql_lower (sql_trim (qr_email r)) = normalizedEmail)
                             (quiz_results db))
           in case result of
                None \<Rightarrow>
                  (let fallbackResult = order_by_created_at_desc_limit_1
                          (filter (\<lambda>r. sql_ilike (qr_email r) (''%'' @ normalizedEmail @ ''%''))
                             (quiz_results db))
                   in case fallbackResult of
                        Some r \<Rightarrow> Success r
                      | None \<Rightarrow> Failure (Message ''Quiz result not found''))
              | Some r \<Rightarrow> Success r)
      | _ \<Rightarrow> Failure (Thrown (js_no_method email ''email.toLowerCase'')))"

subsection \<open>createDownloadToken and verifyDownloadToken\<close>

text \<open>
  The \<^verbatim>\<open>INSERT\<close> fails on a token that is already there (primary key), on a result id
  with no row in \<^verbatim>\<open>quiz_results\<close> (foreign key), and on a token longer than the column.
\<close>

definition createDownloadToken ::
  "database \<Rightarrow> timestamp \<Rightarrow> string \<Rightarrow> string \<Rightarrow> timestamp \<Rightarrow> database \<times> unit db_result" where
  "createDownloadToken db now token quizResultId expiresAt =
     (if (\<exists>t \<in> set (pdf_download_tokens db). t_token t = token) then
        (db, Failure (Rejected ''duplicate key value violates unique constraint''))
      else if \<not> (\<exists>q \<in> set (quiz_results db). qr_id q = quizResultId) then
        (db, Failure (Rejected ''violates foreign key constraint''))
      else if length token > 255 then
        (db, Failure (Rejected ''value too long for type character varying''))
      else
        (db\<lparr>pdf_download_tokens :=
              pdf_download_tokens db @
                [\<lparr>t_token = token, t_quiz_result_id = quizResultId,
                  t_expires_at = expiresAt, t_created_at = now\<rparr>]\<rparr>,
         Success ()))"

text \<open>
  The rows of \<^verbatim>\<open>pdf_download_tokens t JOIN quiz_results q ON t.quiz_result_id = q.id
  WHERE t.token = $1 AND t.expires_at > CURRENT_TIMESTAMP\<close>; the function returns the
  first.
\<close>

definition verify_rows :: "database \<Rightarrow> timestamp \<Rightarrow> string \<Rightarrow> (token_row \<times> quiz_result_row) list" where
  "verify_rows db now token =
     concat (map (\<lambda>t. map (\<lambda>q. (t, q))
                          (filter (\<lambda>q. t_quiz_result_id t = qr_id q) (quiz_results db)))
                 (filter (\<lambda>t. t_token t = token \<and> t_expires_at t > now) (pdf_download_tokens db)))"

definition verifyDownloadToken ::
  "database \<Rightarrow> timestamp \<Rightarrow> string \<Rightarrow> (token_row \<times> quiz_result_row) db_result" where
  "verifyDownloadToken db now token =
     (case verify_rows db now token of
        [] \<Rightarrow> Failure (Message ''Invalid or expired token'')
      | row # rows \<Rightarrow> Success row)"

section \<open>The download endpoint\<close>

datatype http_response = Json nat string | Redirect string

datatype presign_result = Presigned string | PresignError string

text \<open>
  \<^verbatim>\<open>generatePresignedPdfUrl(s3Key, expiresInSeconds)\<close> wraps the call of the AWS SDK's
  \<^verbatim>\<open>getSignedUrl\<close>, which is not part of the repository and is a parameter here: it
  returns a URL or throws.
\<close>

definition generatePresignedPdfUrl :: "(jsval \<Rightarrow> nat \<Rightarrow> string + string) \<Rightarrow> jsval \<Rightarrow> nat \<Rightarrow> presign_result" where
  "generatePresignedPdfUrl getSignedUrl s3Key expiresInSeconds =
     (case getSignedUrl s3Key expiresInSeconds of
        Inr presignedUrl \<Rightarrow> Presigned presignedUrl
      | Inl message \<Rightarrow> PresignError message)"

text \<open>
  \<^verbatim>\<open>GET /download\<close>.  \<^verbatim>\<open>req.query.token\<close> is \<^verbatim>\<open>undefined\<close>, a string, or (for a repeated or
  bracketed parameter) an array or an object; on the last two the logging line's
  \<^verbatim>\<open>token.substring\<close> throws, and the handler's \<^verbatim>\<open>catch\<close> answers.
\<close>

definition download ::
  "(jsval \<Rightarrow> nat \<Rightarrow> string + string) \<Rightarrow> database \<Rightarrow> timestamp \<Rightarrow> jsval \<Rightarrow> http_response" where
  "download getSignedUrl db now token =
     (if js_truthy token \<and> (case token of JStr s \<Rightarrow> False | _ \<Rightarrow> True) then
        Json 500 ''Internal server error''
      else if \<not> js_truthy token then Json 400 ''Missing token''
      else
        (case verifyDownloadToken db now (case token of JStr s \<Rightarrow> s | _ \<Rightarrow> []) of
           Failure e \<Rightarrow> Json 404 ''Invalid or unknown link''
         | Success record \<Rightarrow>
             (case generatePresignedPdfUrl getSignedUrl (qr_s3_key (snd record)) (7 * 60 * 60) of
                PresignError e \<Rightarrow> Json 500 ''Could not generate download link''
              | Presigned url \<Rightarrow> Redirect url)))"

section \<open>Minting a download token\<close>

text \<open>
  Modelled from the \<^verbatim>\<open>uuid\<close> package (RFC 4122, version 4), a dependency that is not
  under the repository's sources: \<^verbatim>\<open>v4()\<close> draws 16 random bytes, overwrites the four
  version bits and the two variant bits, and prints the bytes in hexadecimal with hyphens.
\<close>

unbundle bit_operations_syntax

definition hex_digit :: "nat \<Rightarrow> char" where
  "hex_digit n = (if n < 10 then char_of (48 + n) else char_of (87 + n))"

definition byteToHex :: "8 word \<Rightarrow> string" where
  "byteToHex b = [hex_digit (unat b div 16), hex_digit (unat b mod 16)]"

definition uuid_set_version :: "8 word list \<Rightarrow> 8 word list" where
  "uuid_set_version rnds =
     (let r6 = rnds[6 := (rnds ! 6 AND 0x0f) OR 0x40]
      in r6[8 := (r6 ! 8 AND 0x3f) OR 0x80])"

definition unsafeStringify :: "8 word list \<Rightarrow> string" where
  "unsafeStringify arr =
     concat (map byteToHex (take 4 arr)) @ ''-'' @
     concat (map byteToHex (take 2 (drop 4 arr))) @ ''-'' @
     concat (map byteToHex (take 2 (drop 6 arr))) @ ''-'' @
     concat (map byteToHex (take 2 (drop 8 arr))) @ ''-'' @
     concat (map byteToHex (take 6 (drop 10 arr)))"

definition uuidv4 :: "8 word list \<Rightarrow> string" where
  "uuidv4 rnds = unsafeStringify (uuid_set_version rnds)"

text \<open>
  The token of \<^verbatim>\<open>POST /api/quiz/generate-pdf\<close> and of \<^verbatim>\<open>generatePDFInBackground\<close>:
  \<^verbatim>\<open>uuidv4()\<close> on the 16 bytes the random source gives, valid for seven days.
\<close>

definition mint_download_token ::
  "database \<Rightarrow> timestamp \<Rightarrow> 8 word list \<Rightarrow> string \<Rightarrow> (database \<times> unit db_result) \<times> string" where
  "mint_download_token db now rnds resultId =
     (let token = uuidv4 rnds;
          expiresAt = now + 7 * 24 * 60 * 60 * 1000
      in (createDownloadToken db now token resultId expiresAt, token))"

text \<open>The tokens the endpoint can mint: one for each 16 bytes of the random source.\<close>

definition minted_tokens :: "string set" where
  "minted_tokens = uuidv4 ` {rnds. length rnds = 16}"

section \<open>Notions the properties are stated with\<close>

definition is_success :: "'a db_result \<Rightarrow> bool" where
  "is_success r = (case r of Success x \<Rightarrow> True | Failure e \<Rightarrow> False)"

text \<open>The primary key of \<^verbatim>\<open>quiz_results\<close>: no two rows share an id.\<close>

definition primary_key_ok :: "database \<Rightarrow> bool" where
  "primary_key_ok db = distinct (map qr_id (quiz_results db))"

text \<open>
  What the store shows to its readers.  The handlers of the repository read the columns
  \<^verbatim>\<open>id\<close>, \<^verbatim>\<open>email\<close>, \<^verbatim>\<open>quiz_data\<close>, \<^verbatim>\<open>pdf_url\<close>, \<^verbatim>\<open>s3_key\<close> and \<^verbatim>\<open>created_at\<close> of a result; none
  reads the bookkeeping column \<^verbatim>\<open>updated_at\<close>, so the observable row is the row without
  it.
\<close>

definition observable_row ::
  "quiz_result_row \<Rightarrow>
     string \<times> jsval \<times> string \<times> jsval \<times> jsval \<times> jsval \<times> jsval \<times> jsval \<times> jsval \<times> jsval \<times> jsval \<times> jsval
       \<times> timestamp" where
  "observable_row r =
     (qr_id r, qr_user_id r, qr_email r, qr_name r, qr_quiz_data r, qr_edna_type r, qr_core_type r,
      qr_subtype r, qr_core_mastery r, qr_subtype_mastery r, qr_pdf_url r, qr_s3_key r,
      qr_created_at r)"

definition observable_state :: "database \<Rightarrow> _ list \<times> token_row list" where
  "observable_state db = (map observable_row (quiz_results db), pdf_download_tokens db)"

text \<open>A query string in which no character is special to \<^verbatim>\<open>LIKE\<close>.\<close>

definition no_wildcards :: "string \<Rightarrow> bool" where
  "no_wildcards q = (\<forall>c \<in> set q. c \<noteq> CHR ''%'' \<and> c \<noteq> CHR ''_'' \<and> c \<noteq> CHR 0x5C)"

text \<open>
  Layer 4: the four buckets; a question whose answer the loop counts into a bucket; and the
  scores of a run in which no question was counted (the buckets are at 0, and every other
  entry, written by \<^verbatim>\<open>scores[key]++\<close> on a missing key, is \<^verbatim>\<open>NaN\<close>).
\<close>

definition l4_buckets :: "string set" where
  "l4_buckets = {''visual'', ''auditory'', ''readWrite'', ''kinesthetic''}"

definition l4_hit :: "answers \<Rightarrow> nat \<Rightarrow> bool" where
  "l4_hit answers i =
     (let answer = get_answer answers (''L4_Q'' @ show_nat i)
      in js_truthy answer \<and> (\<exists>b. literal_get l4_mapping answer = Inr (JStr b)))"

definition l4_no_hits :: "(string \<times> jsnum) list \<Rightarrow> bool" where
  "l4_no_hits scores =
     (map_of scores ''visual'' = Some (Num 0) \<and> map_of scores ''auditory'' = Some (Num 0)
      \<and> map_of scores ''readWrite'' = Some (Num 0) \<and> map_of scores ''kinesthetic'' = Some (Num 0)
      \<and> (\<forall>(k, v) \<in> set scores. if k \<in> l4_buckets then v = Num 0 else v = NaN))"

text \<open>
  The bytes of a version-4 UUID that the random source decides: six bytes, the low four
  bits of byte 6, byte 7, the low six bits of byte 8, and seven bytes.
\<close>

definition uuid_parts :: "(8 word list \<times> 8 word \<times> 8 word \<times> 8 word \<times> 8 word list) set" where
  "uuid_parts = {a. length a = 6} \<times> {x. x \<le> 0x0f} \<times> UNIV \<times> {y. y \<le> 0x3f} \<times> {c. length c = 7}"

definition uuid_assemble :: "8 word list \<times> 8 word \<times> 8 word \<times> 8 word \<times> 8 word list \<Rightarrow> 8 word list" where
  "uuid_assemble p = (case p of (a, x, m, y, c) \<Rightarrow> a @ [x OR 0x40] @ [m] @ [y OR 0x80] @ c)"

section \<open>Example inputs\<close>

definition empty_db :: database where
  "empty_db = \<lparr>quiz_results = [], pdf_download_tokens = []\<rparr>"

definition example_results :: jsval where
  "example_results = JObj [(''ednaType'', JStr ''Architect''), (''subtype'', JStr ''Planner'')]"

text \<open>A save of one result, with its artifact, for \<^verbatim>\<open>" Ann@Example.com"\<close>.\<close>

definition example_save :: "database \<Rightarrow> timestamp \<Rightarrow> database \<times> quiz_result_row db_result" where
  "example_save db now =
     saveQuizResult db now ''r1'' (JStr '' Ann@Example.com'') (JStr ''Ann'') example_results
       (JStr ''https://bucket/r1.pdf'') (JStr ''r1.pdf'')"

text \<open>The store after that save at time 10, and a token for the result that expires at 100.\<close>

definition example_db :: database where
  "example_db = fst (createDownloadToken (fst (example_save empty_db 10)) 20 ''tok'' ''r1'' 100)"

definition example_token_row :: token_row where
  "example_token_row =
     \<lparr>t_token = ''tok'', t_quiz_result_id = ''r1'', t_expires_at = 100, t_created_at = 20\<rparr>"

text \<open>A store with one result, saved for \<^verbatim>\<open>"Joanna@Example.com"\<close>.\<close>

definition example_lookup_db :: database where
  "example_lookup_db =
     fst (saveQuizResult empty_db 10 ''r1'' (JStr ''Joanna@Example.com'') (JStr ''Joanna'') example_results
            JNull JNull)"

text \<open>A storage collaborator that signs every key, and one that fails on every key.\<close>

definition signing :: "jsval \<Rightarrow> nat \<Rightarrow> string + string" where
  "signing s3Key expiresIn =
     Inr (''https://bucket/'' @ (case s3Key of JStr k \<Rightarrow> k | _ \<Rightarrow> []) @ ''?signed'')"

definition failing :: "jsval \<Rightarrow> nat \<Rightarrow> string + string" where
  "failing s3Key expiresIn = Inl ''The bucket does not exist''"

section \<open>Properties of Layer 1\<close>

lemma l1_question_ids:
  "map (\<lambda>i. ''L1_Q'' @ show_nat i) [1..<9] =
     [''L1_Q1'', ''L1_Q2'', ''L1_Q3'', ''L1_Q4'', ''L1_Q5'', ''L1_Q6'', ''L1_Q7'', ''L1_Q8'']"
  by code_simp

lemma l1_foldl:
  "foldl (l1_step answers) (a, b) xs =
     (a + length (filter (\<lambda>i. answers (''L1_Q'' @ show_nat i) = Some (JStr ''a'')) xs),
      b + length (filter (\<lambda>i. answers (''L1_Q'' @ show_nat i) = Some (JStr ''b'')) xs))"
  by (induction xs arbitrary: a b) (auto simp: l1_step_def get_answer_def Let_def split: option.splits)

lemma l1_count_spec_filter:
  "l1_count_spec answers code =
     length (filter (\<lambda>i. answers (''L1_Q'' @ show_nat i) = Some (JStr code)) [1..<9])"
proof -
  have "{i. 1 \<le> i \<and> i \<le> 8 \<and> answers (''L1_Q'' @ show_nat i) = Some (JStr code)}
        = {i. answers (''L1_Q'' @ show_nat i) = Some (JStr code)} \<inter> set [1..<9]"
    by auto
  then show ?thesis
    unfolding l1_count_spec_def by (simp only: distinct_length_filter[OF distinct_upt])
qed

lemma l1_counts:
  "architectCount (calculateLayer1 answers) = l1_count_spec answers ''a''"
  "alchemistCount (calculateLayer1 answers) = l1_count_spec answers ''b''"
  by (simp_all add: calculateLayer1_def Let_def l1_foldl l1_count_spec_filter)

lemma l1_type_counts:
  "l1_type (calculateLayer1 answers) =
     l1_classify_spec (architectCount (calculateLayer1 answers)) (alchemistCount (calculateLayer1 answers))"
proof -
  obtain a b where ab: "foldl (l1_step answers) (0, 0) [1..<9] = (a, b)"
    by (cases "foldl (l1_step answers) (0, 0) [1..<9]") blast
  show ?thesis
    unfolding calculateLayer1_def Let_def ab
    by (simp add: l1_classify_spec_def l1_table_def)
qed

text \<open>
  Claim C2.  \<^verbatim>\<open>calculateLayer1\<close> counts the questions \<^verbatim>\<open>L1_Q1\<close> .. \<^verbatim>\<open>L1_Q8\<close> answered
  \<^verbatim>\<open>'a'\<close> (architect) and \<^verbatim>\<open>'b'\<close> (alchemist) and classifies by an exact-count lookup: the
  type is the table's entry for the pair of counts, so it is \<^verbatim>\<open>Strong Architect\<close> exactly
  at 8/0, \<^verbatim>\<open>Medium Architect\<close> exactly at 7/1, \<^verbatim>\<open>Weak Architect\<close> exactly at 6/2,
  \<^verbatim>\<open>Strong Alchemist\<close> exactly at 0/8, \<^verbatim>\<open>Medium Alchemist\<close> exactly at 1/7,
  \<^verbatim>\<open>Weak Alchemist\<close> exactly at 2/6, and \<^verbatim>\<open>Blurred\<close> at every other pair of counts, a 5/3
  split among them.
\<close>

theorem calculateLayer1_exact_count_lookup:
  fixes answers :: answers
  defines "a \<equiv> l1_count_spec answers ''a''" and "b \<equiv> l1_count_spec answers ''b''"
      and "t \<equiv> l1_type (calculateLayer1 answers)"
  shows "map (\<lambda>i. ''L1_Q'' @ show_nat i) [1..<9] =
       [''L1_Q1'', ''L1_Q2'', ''L1_Q3'', ''L1_Q4'', ''L1_Q5'', ''L1_Q6'', ''L1_Q7'', ''L1_Q8'']
     \<and> architectCount (calculateLayer1 answers) = a
     \<and> alchemistCount (calculateLayer1 answers) = b
     \<and> t = l1_classify_spec a b
     \<and> (t = ''Strong Architect'') = (a = 8 \<and> b = 0)
     \<and> (t = ''Medium Architect'') = (a = 7 \<and> b = 1)
     \<and> (t = ''Weak Architect'') = (a = 6 \<and> b = 2)
     \<and> (t = ''Strong Alchemist'') = (a = 0 \<and> b = 8)
     \<and> (t = ''Medium Alchemist'') = (a = 1 \<and> b = 7)
     \<and> (t = ''Weak Alchemist'') = (a = 2 \<and> b = 6)
     \<and> (t = ''Blurred'') = ((a, b) \<notin> {(8, 0), (7, 1), (6, 2), (0, 8), (1, 7), (2, 6)})
     \<and> l1_classify_spec 5 3 = ''Blurred''"
proof -
  have t: "t = l1_classify_spec a b"
    unfolding t_def a_def b_def using l1_type_counts[of answers] by (simp add: l1_counts)
  have rest: "architectCount (calculateLayer1 answers) = a
     \<and> alchemistCount (calculateLayer1 answers) = b
     \<and> t = l1_classify_spec a b
     \<and> (t = ''Strong Architect'') = (a = 8 \<and> b = 0)
     \<and> (t = ''Medium Architect'') = (a = 7 \<and> b = 1)
     \<and> (t = ''Weak Architect'') = (a = 6 \<and> b = 2)
     \<and> (t = ''Strong Alchemist'') = (a = 0 \<and> b = 8)
     \<and> (t = ''Medium Alchemist'') = (a = 1 \<and> b = 7)
     \<and> (t = ''Weak Alchemist'') = (a = 2 \<and> b = 6)
     \<and> (t = ''Blurred'') = ((a, b) \<notin> {(8, 0), (7, 1), (6, 2), (0, 8), (1, 7), (2, 6)})
     \<and> l1_classify_spec 5 3 = ''Blurred''"
    unfolding t
    by (simp add: l1_counts a_def b_def l1_classify_spec_def l1_table_def)
  show ?thesis
    using l1_question_ids rest by (rule conjI)
qed

section \<open>Properties of Layer 6\<close>

text \<open>
  Claim C8.  \<^verbatim>\<open>calculateLayer6\<close> derives the personality core type by a two-by-two lookup
  on the answers to \<^verbatim>\<open>L6_Q37\<close> and \<^verbatim>\<open>L6_Q38\<close>: ('a','a') gives \<^verbatim>\<open>Confident & Steady\<close>,
  ('a','b') \<^verbatim>\<open>Confident & Driven\<close>, ('b','a') \<^verbatim>\<open>Considerate & Steady\<close>, ('b','b')
  \<^verbatim>\<open>Fast-Moving & Adaptive\<close>; every other combination, a missing answer to either
  question included, gives the empty string.
\<close>

theorem calculateLayer6_coreType_lookup:
  fixes answers :: answers
  defines "q37 \<equiv> get_answer answers ''L6_Q37''" and "q38 \<equiv> get_answer answers ''L6_Q38''"
      and "c \<equiv> coreType (l6_personality (calculateLayer6 answers))"
  shows "c = l6_coreType_spec q37 q38
     \<and> (c = ''Confident & Steady'') = (q37 = JStr ''a'' \<and> q38 = JStr ''a'')
     \<and> (c = ''Confident & Driven'') = (q37 = JStr ''a'' \<and> q38 = JStr ''b'')
     \<and> (c = ''Considerate & Steady'') = (q37 = JStr ''b'' \<and> q38 = JStr ''a'')
     \<and> (c = ''Fast-Moving & Adaptive'') = (q37 = JStr ''b'' \<and> q38 = JStr ''b'')
     \<and> (c = []) = ((q37, q38) \<notin> {(JStr ''a'', JStr ''a''), (JStr ''a'', JStr ''b''),
                                   (JStr ''b'', JStr ''a''), (JStr ''b'', JStr ''b'')})
     \<and> l6_coreType_spec JUndefined q38 = [] \<and> l6_coreType_spec q37 JUndefined = []
     \<and> (c = ''Confident & Steady'')
         = (answers ''L6_Q37'' = Some (JStr ''a'') \<and> answers ''L6_Q38'' = Some (JStr ''a''))
     \<and> (c = ''Confident & Driven'')
         = (answers ''L6_Q37'' = Some (JStr ''a'') \<and> answers ''L6_Q38'' = Some (JStr ''b''))
     \<and> (c = ''Considerate & Steady'')
         = (answers ''L6_Q37'' = Some (JStr ''b'') \<and> answers ''L6_Q38'' = Some (JStr ''a''))
     \<and> (c = ''Fast-Moving & Adaptive'')
         = (answers ''L6_Q37'' = Some (JStr ''b'') \<and> answers ''L6_Q38'' = Some (JStr ''b''))
     \<and> (c = []) = ((answers ''L6_Q37'', answers ''L6_Q38'')
                      \<notin> {(Some (JStr ''a''), Some (JStr ''a'')), (Some (JStr ''a''), Some (JStr ''b'')),
                          (Some (JStr ''b''), Some (JStr ''a'')), (Some (JStr ''b''), Some (JStr ''b''))})
     \<and> coreType (l6_personality (calculateLayer6 (answers(''L6_Q37'' := None)))) = []
     \<and> coreType (l6_personality (calculateLayer6 (answers(''L6_Q38'' := None)))) = []
     \<and> coreType (l6_personality (calculateLayer6
           (answers(''L6_Q37'' \<mapsto> JStr ''a'', ''L6_Q38'' \<mapsto> JStr ''a'')))) = ''Confident & Steady''
     \<and> coreType (l6_personality (calculateLayer6
           (answers(''L6_Q37'' \<mapsto> JStr ''a'', ''L6_Q38'' \<mapsto> JStr ''b'')))) = ''Confident & Driven''
     \<and> coreType (l6_personality (calculateLayer6
           (answers(''L6_Q37'' \<mapsto> JStr ''b'', ''L6_Q38'' \<mapsto> JStr ''a'')))) = ''Considerate & Steady''
     \<and> coreType (l6_personality (calculateLayer6
           (answers(''L6_Q37'' \<mapsto> JStr ''b'', ''L6_Q38'' \<mapsto> JStr ''b'')))) = ''Fast-Moving & Adaptive''"
proof -
  have spec: "c = l6_coreType_spec q37 q38
     \<and> (c = ''Confident & Steady'') = (q37 = JStr ''a'' \<and> q38 = JStr ''a'')
     \<and> (c = ''Confident & Driven'') = (q37 = JStr ''a'' \<and> q38 = JStr ''b'')
     \<and> (c = ''Considerate & Steady'') = (q37 = JStr ''b'' \<and> q38 = JStr ''a'')
     \<and> (c = ''Fast-Moving & Adaptive'') = (q37 = JStr ''b'' \<and> q38 = JStr ''b'')
     \<and> (c = []) = ((q37, q38) \<notin> {(JStr ''a'', JStr ''a''), (JStr ''a'', JStr ''b''),
                                   (JStr ''b'', JStr ''a''), (JStr ''b'', JStr ''b'')})
     \<and> l6_coreType_spec JUndefined q38 = [] \<and> l6_coreType_spec q37 JUndefined = []"
    unfolding c_def q37_def q38_def
    by (simp add: calculateLayer6_def Let_def l6_coreType_spec_def l6_core_table_def)
  have q37: "(q37 = JStr x) = (answers ''L6_Q37'' = Some (JStr x))" for x
    unfolding q37_def by (simp add: get_answer_def split: option.splits)
  have q38: "(q38 = JStr x) = (answers ''L6_Q38'' = Some (JStr x))" for x
    unfolding q38_def by (simp add: get_answer_def split: option.splits)
  have others: "((q37, q38) \<notin> {(JStr ''a'', JStr ''a''), (JStr ''a'', JStr ''b''),
                                   (JStr ''b'', JStr ''a''), (JStr ''b'', JStr ''b'')})
      = ((answers ''L6_Q37'', answers ''L6_Q38'')
                      \<notin> {(Some (JStr ''a''), Some (JStr ''a'')), (Some (JStr ''a''), Some (JStr ''b'')),
                          (Some (JStr ''b''), Some (JStr ''a'')), (Some (JStr ''b''), Some (JStr ''b''))})"
    by (simp add: q37 q38)
  note onmap = spec[unfolded others q37 q38]
  have inst: "coreType (l6_personality (calculateLayer6 (answers(''L6_Q37'' := None)))) = []
     \<and> coreType (l6_personality (calculateLayer6 (answers(''L6_Q38'' := None)))) = []
     \<and> coreType (l6_personality (calculateLayer6
           (answers(''L6_Q37'' \<mapsto> JStr ''a'', ''L6_Q38'' \<mapsto> JStr ''a'')))) = ''Confident & Steady''
     \<and> coreType (l6_personality (calculateLayer6
           (answers(''L6_Q37'' \<mapsto> JStr ''a'', ''L6_Q38'' \<mapsto> JStr ''b'')))) = ''Confident & Driven''
     \<and> coreType (l6_personality (calculateLayer6
           (answers(''L6_Q37'' \<mapsto> JStr ''b'', ''L6_Q38'' \<mapsto> JStr ''a'')))) = ''Considerate & Steady''
     \<and> coreType (l6_personality (calculateLayer6
           (answers(''L6_Q37'' \<mapsto> JStr ''b'', ''L6_Q38'' \<mapsto> JStr ''b'')))) = ''Fast-Moving & Adaptive''"
    by (simp add: calculateLayer6_def Let_def get_answer_def)
  show ?thesis using spec onmap inst
    apply (elim conjE)
    apply (intro conjI)
    apply assumption+
    done
qed

section \<open>Properties of the conversions and of the loops\<close>

text \<open>The only exception a string conversion, a property access or a tallying loop throws.\<close>

lemma js_to_string_error:
  "js_to_string v = Inl e \<Longrightarrow> e = conversion_error"
  "js_strings vs = Inl e \<Longrightarrow> e = conversion_error"
  by (induction v and vs arbitrary: e and e rule: js_to_string_js_strings.induct)
     (auto split: sum.splits if_splits)

lemma literal_get_error: "literal_get obj key = Inl e \<Longrightarrow> e = conversion_error"
  by (auto simp: literal_get_def js_to_string_error split: sum.splits)

lemma literal_get_kind:
  "literal_get obj key = Inr y \<Longrightarrow> (\<exists>v. y = JStr v) \<or> (\<exists>r. y = JNative r) \<or> y = JUndefined"
  by (auto simp: literal_get_def split: sum.splits option.splits)

lemma for_loop_error:
  "(\<And>s i e. body s i = Inl e \<Longrightarrow> e = e0) \<Longrightarrow> for_loop body s xs = Inl e \<Longrightarrow> e = e0"
  by (induction xs arbitrary: s) (auto split: sum.splits)

lemma for_loop_total:
  "(\<And>s i. i \<in> set xs \<Longrightarrow> \<exists>s'. body s i = Inr s') \<Longrightarrow> \<exists>s'. for_loop body s xs = Inr s'"
proof (induction xs arbitrary: s)
  case Nil
  then show ?case by simp
next
  case (Cons i xs)
  obtain s' where "body s i = Inr s'" using Cons.prems[of i s] by auto
  moreover have "\<exists>s''. for_loop body s' xs = Inr s''"
    using Cons.IH[of s'] Cons.prems by auto
  ultimately show ?case by simp
qed

lemma for_loop_unchanged: "(\<And>s i. body s i = Inr s) \<Longrightarrow> for_loop body s xs = Inr s"
  by (induction xs) simp_all

lemma for_loop_invariant:
  "for_loop body s xs = Inr s' \<Longrightarrow> P s
     \<Longrightarrow> (\<And>i t t'. i \<in> set xs \<Longrightarrow> P t \<Longrightarrow> body t i = Inr t' \<Longrightarrow> P t') \<Longrightarrow> P s'"
proof (induction xs arbitrary: s)
  case Nil
  then show ?case by simp
next
  case (Cons i xs)
  from Cons.prems(1) obtain t where t: "body s i = Inr t" "for_loop body t xs = Inr s'"
    by (auto split: sum.splits)
  have "P t" using Cons.prems(2,3) t(1) by auto
  then show ?case using Cons.IH[OF t(2)] Cons.prems(3) by auto
qed

lemma l2_step_error: "l2_step answers path questionPrefix scores i = Inl e \<Longrightarrow> e = conversion_error"
  by (auto simp: l2_step_def Let_def split: if_splits sum.splits
        dest: literal_get_error js_to_string_error(1))

lemma l4_step_error: "l4_step answers scores i = Inl e \<Longrightarrow> e = conversion_error"
  by (auto simp: l4_step_def Let_def split: if_splits sum.splits
        dest: literal_get_error js_to_string_error(1))

lemma calculateLayer2_error: "calculateLayer2 answers l1 = Inl e \<Longrightarrow> e = conversion_error"
  unfolding calculateLayer2_def Let_def
  by (auto split: sum.splits dest!: for_loop_error[where ?e0.0 = conversion_error, rotated] l2_step_error)

lemma calculateLayer4_error: "calculateLayer4 answers = Inl e \<Longrightarrow> e = conversion_error"
  unfolding calculateLayer4_def Let_def
  by (auto split: sum.splits dest!: for_loop_error[where ?e0.0 = conversion_error, rotated] l4_step_error)

section \<open>Properties of Layer 7 and of the whole scoring\<close>

lemma l7_mapping_first:
  "l7_mapping =
     (''L7_Q40'', ''Grounding Source'', [''Self-Reliant'', ''Faith-Reliant'', ''Dual-Reliant''])
       # tl l7_mapping"
  by (simp add: l7_mapping_def)

lemma calculateLayer7_number:
  "calculateLayer7 (answers(''L7_Q40'' \<mapsto> JNum 1)) = Inl (TypeError ''answer.charCodeAt is not a function'')"
proof -
  have "l7_loop (answers(''L7_Q40'' \<mapsto> JNum 1)) l7_mapping []
          = Inl (TypeError ''answer.charCodeAt is not a function'')"
    by (subst l7_mapping_first) (simp add: get_answer_def l7_label_def)
  then show ?thesis by (simp add: calculateLayer7_def)
qed

text \<open>
  Claim C1 says that scoring returns all seven layers for every answer map and never throws
  on a malformed answer.  It does not hold: whatever the other answers are, the number
  \<^verbatim>\<open>1\<close> as the answer to \<^verbatim>\<open>L7_Q40\<close> is truthy and has no method \<^verbatim>\<open>charCodeAt\<close>, so
  \<^verbatim>\<open>calculateLayer7\<close> throws a \<^verbatim>\<open>TypeError\<close>, which \<^verbatim>\<open>calculateAllResults\<close> does not
  catch: no result object is returned.  The exception that reaches the caller is the one of
  Layer 7 unless Layer 2 or Layer 4 has thrown before it, which they do only on an answer
  that cannot be converted to a property key; with \<^verbatim>\<open>L7_Q40\<close> as the only answer it is the
  one of Layer 7.
\<close>

theorem calculateAllResults_throws_on_number:
  fixes answers :: answers
  defines "malformed \<equiv> answers(''L7_Q40'' \<mapsto> JNum 1)"
  shows "calculateAllResults malformed =
       (case calculateLayer2 malformed (calculateLayer1 malformed) of
          Inl e \<Rightarrow> Inl e
        | Inr l2 \<Rightarrow>
            (case calculateLayer4 malformed of
               Inl e \<Rightarrow> Inl e
             | Inr l4 \<Rightarrow> Inl (TypeError ''answer.charCodeAt is not a function'')))
     \<and> calculateAllResults malformed
         \<in> {Inl (TypeError ''answer.charCodeAt is not a function''), Inl conversion_error}
     \<and> calculateAllResults [''L7_Q40'' \<mapsto> JNum 1]
         = Inl (TypeError ''answer.charCodeAt is not a function'')"
proof -
  have l7: "calculateLayer7 malformed = Inl (TypeError ''answer.charCodeAt is not a function'')"
    unfolding malformed_def by (rule calculateLayer7_number)
  have eq: "calculateAllResults malformed =
       (case calculateLayer2 malformed (calculateLayer1 malformed) of
          Inl e \<Rightarrow> Inl e
        | Inr l2 \<Rightarrow>
            (case calculateLayer4 malformed of
               Inl e \<Rightarrow> Inl e
             | Inr l4 \<Rightarrow> Inl (TypeError ''answer.charCodeAt is not a function'')))"
    by (simp add: calculateAllResults_def Let_def l7 split: sum.splits)
  have mem: "calculateAllResults malformed
         \<in> {Inl (TypeError ''answer.charCodeAt is not a function''), Inl conversion_error}"
    unfolding eq
    by (auto split: sum.splits dest: calculateLayer2_error calculateLayer4_error)
  have closed: "calculateAllResults [''L7_Q40'' \<mapsto> JNum 1]
         = Inl (TypeError ''answer.charCodeAt is not a function'')"
    by code_simp
  show ?thesis using eq mem closed by (intro conjI)
qed

text \<open>On an answer map whose answers are all strings, the loop of Layer 7 does not throw.\<close>

lemma l7_loop_strings:
  assumes "\<forall>qid v. answers qid = Some v \<longrightarrow> (\<exists>s. v = JStr s)"
  shows "\<exists>b. l7_loop answers dims beliefs = Inr b"
proof (induction dims arbitrary: beliefs)
  case Nil
  then show ?case by simp
next
  case (Cons d dims)
  obtain qid name labels where d: "d = (qid, name, labels)" by (cases d) auto
  show ?case
  proof (cases "answers qid")
    case None
    then show ?thesis using Cons.IH by (simp add: d get_answer_def)
  next
    case (Some v)
    then obtain s where "v = JStr s" using assms by blast
    then show ?thesis
      using Some Cons.IH by (cases s) (simp_all add: d get_answer_def l7_label_def Let_def)
  qed
qed

text \<open>Nor do the steps of Layer 2 and Layer 4.\<close>

lemma get_answer_strings:
  assumes "\<forall>qid v. answers qid = Some v \<longrightarrow> (\<exists>s. v = JStr s)"
  shows "get_answer answers qid = JUndefined \<or> (\<exists>s. get_answer answers qid = JStr s)"
  using assms by (cases "answers qid") (auto simp: get_answer_def)

lemma literal_get_string: "\<exists>y. literal_get obj (JStr s) = Inr y"
  by (simp add: literal_get_def)

lemma js_to_string_found:
  "literal_get obj key = Inr y \<Longrightarrow> \<exists>k. js_to_string (js_or y (JStr [])) = Inr k"
  using literal_get_kind[of obj key y] by (auto simp: js_or_def)

lemma js_to_string_bucket:
  "literal_get obj key = Inr y \<Longrightarrow> \<exists>k. js_to_string y = Inr k"
  using literal_get_kind[of obj key y] by auto

lemma l2_step_strings:
  assumes "\<forall>qid v. answers qid = Some v \<longrightarrow> (\<exists>s. v = JStr s)"
  shows "\<exists>s'. l2_step answers path questionPrefix scores i = Inr s'"
proof -
  let ?qid = "if path = ''alchemist'' then questionPrefix @ show_nat i @ ''a'' else questionPrefix @ show_nat i"
  from get_answer_strings[OF assms, of ?qid] show ?thesis
  proof
    assume "get_answer answers ?qid = JUndefined"
    then show ?thesis by (simp add: l2_step_def Let_def)
  next
    assume "\<exists>s. get_answer answers ?qid = JStr s"
    then obtain s where s: "get_answer answers ?qid = JStr s" by blast
    obtain y1 where y1: "literal_get l2_mapping_architect (JStr s) = Inr y1"
      using literal_get_string by blast
    obtain y2 where y2: "literal_get l2_mapping_alchemist (JStr s) = Inr y2"
      using literal_get_string by blast
    obtain k1 where k1: "js_to_string y1 = Inr k1"
      using js_to_string_bucket[OF y1] by blast
    obtain k2 where k2: "js_to_string y2 = Inr k2"
      using js_to_string_bucket[OF y2] by blast
    show ?thesis
      unfolding l2_step_def Let_def s
      by (simp add: y1 y2 k1 k2 js_or_def)
  qed
qed

lemma l4_step_strings:
  assumes "\<forall>qid v. answers qid = Some v \<longrightarrow> (\<exists>s. v = JStr s)"
  shows "\<exists>s'. l4_step answers scores i = Inr s'"
proof -
  let ?qid = "''L4_Q'' @ show_nat i"
  from get_answer_strings[OF assms, of ?qid] show ?thesis
  proof
    assume "get_answer answers ?qid = JUndefined"
    then show ?thesis by (simp add: l4_step_def Let_def)
  next
    assume "\<exists>s. get_answer answers ?qid = JStr s"
    then obtain s where s: "get_answer answers ?qid = JStr s" by blast
    obtain y where y: "literal_get l4_mapping (JStr s) = Inr y"
      using literal_get_string by blast
    obtain k where k: "js_to_string y = Inr k"
      using js_to_string_bucket[OF y] by blast
    show ?thesis
      unfolding l4_step_def Let_def s by (simp add: y k)
  qed
qed

text \<open>
  So scoring is total where every answer is a string, recognised or not: the empty map,
  unknown codes and longer strings included.
\<close>

lemma calculateAllResults_total_on_strings:
  assumes "\<forall>qid v. answers qid = Some v \<longrightarrow> (\<exists>s. v = JStr s)"
  shows "\<exists>r. calculateAllResults answers = Inr r"
proof -
  obtain b where l7: "l7_loop answers l7_mapping [] = Inr b"
    using l7_loop_strings[OF assms] by blast
  define sel where "sel =
      (if js_includes (l1_type (calculateLayer1 answers)) ''Architect'' then (''architect'', ''L2_Q'')
       else if js_includes (l1_type (calculateLayer1 answers)) ''Alchemist'' then (''alchemist'', ''L2_Q'')
       else (''mixed'', ''L2_Qm''))"
  obtain s2 where loop2: "for_loop (l2_step answers (fst sel) (snd sel)) [] [9..<17] = Inr s2"
    using for_loop_total[of "[9..<17]" "l2_step answers (fst sel) (snd sel)" "[]"]
      l2_step_strings[OF assms] by blast
  have "\<exists>l2. calculateLayer2 answers (calculateLayer1 answers) = Inr l2"
    unfolding calculateLayer2_def Let_def sel_def[symmetric] loop2 by simp
  then obtain l2 where l2: "calculateLayer2 answers (calculateLayer1 answers) = Inr l2"
    by blast
  obtain s4 where loop4: "for_loop (l4_step answers) l4_initial_scores [23..<28] = Inr s4"
    using for_loop_total[of "[23..<28]" "l4_step answers" l4_initial_scores]
      l4_step_strings[OF assms] by blast
  have "\<exists>l4. calculateLayer4 answers = Inr l4"
    unfolding calculateLayer4_def Let_def loop4 by simp
  then obtain l4 where l4: "calculateLayer4 answers = Inr l4"
    by blast
  show ?thesis
    by (simp add: calculateAllResults_def calculateLayer7_def Let_def l7 l2 l4)
qed

section \<open>Properties of Layer 4\<close>

text \<open>
  Claim C4 says that with no answer counted into a bucket the dominant modality is
  \<^verbatim>\<open>visual\<close> and every percentage is 0.  The first part holds; the percentages are not 0:
  the code divides by the total without a guard, \<^verbatim>\<open>0 / 0\<close> is \<^verbatim>\<open>NaN\<close>, and on the empty
  answer map all four percentages are \<^verbatim>\<open>NaN\<close> (no exception is thrown).
\<close>

theorem calculateLayer4_no_answers:
  "calculateLayer4 Map.empty =
     Inr \<lparr>l4_dominantModality = ''visual'',
          l4_scores = [(''visual'', Num 0), (''auditory'', Num 0), (''readWrite'', Num 0),
                       (''kinesthetic'', Num 0)],
          l4_percentages = \<lparr>p_visual = NaN, p_auditory = NaN, p_readWrite = NaN, p_kinesthetic = NaN\<rparr>\<rparr>"
  by code_simp

text \<open>
  The same for every answer map in which no question is counted into a bucket, where
  Layer 4 returns.
\<close>

lemma literal_get_l4_cases:
  assumes "literal_get l4_mapping x = Inr y"
  shows "(\<exists>b \<in> l4_buckets. y = JStr b) \<or> (\<exists>r. r \<notin> l4_buckets \<and> y = JNative r) \<or> y = JUndefined"
proof -
  obtain k where k: "js_to_string x = Inr k"
    using assms by (auto simp: literal_get_def split: sum.splits)
  show ?thesis
  proof (cases "map_of l4_mapping k")
    case (Some v)
    then have "v \<in> l4_buckets"
      by (auto simp: l4_mapping_def l4_buckets_def split: if_splits)
    then show ?thesis using Some assms k by (auto simp: literal_get_def)
  next
    case None
    show ?thesis
    proof (cases "map_of object_prototype k")
      case None
      then show ?thesis
        using \<open>map_of l4_mapping k = None\<close> assms k by (simp add: literal_get_def)
    next
      case (Some r)
      then have "(k, r) \<in> set object_prototype" by (rule map_of_SomeD)
      then have "r \<in> snd ` set object_prototype" by force
      then have "r \<notin> l4_buckets"
        by (auto simp: object_prototype_def native_function_def l4_buckets_def)
      then show ?thesis using Some None assms k by (auto simp: literal_get_def)
    qed
  qed
qed

lemma l4_no_hits_initial: "l4_no_hits l4_initial_scores"
  by (simp add: l4_no_hits_def l4_initial_scores_def l4_buckets_def)

lemma l4_increment_native:
  assumes inv: "l4_no_hits scores" and r: "r \<notin> l4_buckets"
  shows "l4_no_hits (l4_increment scores r)"
proof -
  have get: "l4_get scores r = NaN"
  proof (cases "map_of scores r")
    case None
    then show ?thesis by (simp add: l4_get_def)
  next
    case (Some v)
    then have "(r, v) \<in> set scores" by (rule map_of_SomeD)
    then have "v = NaN" using inv r by (auto simp: l4_no_hits_def)
    then show ?thesis using Some by (simp add: l4_get_def)
  qed
  have upd: "l4_increment scores r = AList.update r NaN scores"
    by (simp add: l4_increment_def get)
  have keys: "r \<noteq> ''visual''" "r \<noteq> ''auditory''" "r \<noteq> ''readWrite''" "r \<noteq> ''kinesthetic''"
    using r by (auto simp: l4_buckets_def)
  have entries: "\<forall>(k, v) \<in> set (AList.update r NaN scores). if k \<in> l4_buckets then v = Num 0 else v = NaN"
  proof -
    have "set (AList.update r NaN scores) \<subseteq> insert (r, NaN) (set scores)"
      by (induction scores) auto
    moreover have "\<forall>(k, v) \<in> set scores. if k \<in> l4_buckets then v = Num 0 else v = NaN"
      using inv by (simp add: l4_no_hits_def)
    ultimately show ?thesis using r by fastforce
  qed
  show ?thesis
    unfolding upd using inv keys entries
    by (simp add: l4_no_hits_def update_conv')
qed

lemma l4_step_no_hits:
  assumes inv: "l4_no_hits scores" and nohit: "\<not> l4_hit answers i"
    and step: "l4_step answers scores i = Inr scores'"
  shows "l4_no_hits scores'"
proof (cases "js_truthy (get_answer answers (''L4_Q'' @ show_nat i))")
  case False
  then show ?thesis using step inv by (simp add: l4_step_def Let_def)
next
  case True
  let ?answer = "get_answer answers (''L4_Q'' @ show_nat i)"
  obtain y where y: "literal_get l4_mapping ?answer = Inr y"
    using step True by (auto simp: l4_step_def Let_def split: sum.splits)
  have notstr: "\<And>b. y \<noteq> JStr b"
    using nohit True y by (auto simp: l4_hit_def Let_def)
  from literal_get_l4_cases[OF y] notstr
  consider (native) r where "r \<notin> l4_buckets" "y = JNative r" | (undefined) "y = JUndefined"
    by blast
  then show ?thesis
  proof cases
    case native
    then have "scores' = l4_increment scores r"
      using step True y by (simp add: l4_step_def Let_def)
    then show ?thesis using l4_increment_native[OF inv native(1)] by simp
  next
    case undefined
    then have "scores' = scores"
      using step True y by (simp add: l4_step_def Let_def)
    then show ?thesis using inv by simp
  qed
qed

lemma l4_total_no_hits:
  "acc = Num 0 \<or> acc = NaN \<Longrightarrow> \<forall>v \<in> set vs. v = Num 0 \<or> v = NaN \<Longrightarrow>
     foldl js_add acc vs = Num 0 \<or> foldl js_add acc vs = NaN"
proof (induction vs arbitrary: acc)
  case Nil
  then show ?case by simp
next
  case (Cons v vs)
  have "js_add acc v = Num 0 \<or> js_add acc v = NaN"
    using Cons.prems by auto
  then show ?case using Cons by simp
qed

lemma l4_dominant_no_hits:
  "\<forall>e \<in> set scores. snd e = Num 0 \<or> snd e = NaN \<Longrightarrow>
     foldl l4_dominant_step (''visual'', Num 0) scores = (''visual'', Num 0)"
proof (induction scores)
  case Nil
  then show ?case by simp
next
  case (Cons e scores)
  have "l4_dominant_step (''visual'', Num 0) e = (''visual'', Num 0)"
    using Cons.prems by (auto simp: l4_dominant_step_def)
  then show ?case using Cons by simp
qed

lemma calculateLayer4_without_hits:
  assumes nohits: "\<forall>i \<in> {23..<28}. \<not> l4_hit answers i"
    and returns: "calculateLayer4 answers = Inr r"
  shows "l4_dominantModality r = ''visual''
     \<and> l4_percentages r = \<lparr>p_visual = NaN, p_auditory = NaN, p_readWrite = NaN, p_kinesthetic = NaN\<rparr>"
proof -
  obtain scores where loop: "for_loop (l4_step answers) l4_initial_scores [23..<28] = Inr scores"
    using returns unfolding calculateLayer4_def
    by (cases "for_loop (l4_step answers) l4_initial_scores [23..<28]") simp_all
  let ?tot = "foldl js_add (Num 0) (map snd scores)"
  have inv: "l4_no_hits scores"
  proof (rule for_loop_invariant[OF loop, of l4_no_hits])
    show "l4_no_hits l4_initial_scores" by (rule l4_no_hits_initial)
  next
    fix i t t'
    assume i: "i \<in> set [23..<28]" and t: "l4_no_hits t" and step: "l4_step answers t i = Inr t'"
    from i have "i \<in> {23..<28}" by (simp only: set_upt)
    with nohits have nohit: "\<not> l4_hit answers i" by blast
    from t nohit step show "l4_no_hits t'" by (rule l4_step_no_hits)
  qed
  then have vals: "\<forall>e \<in> set scores. snd e = Num 0 \<or> snd e = NaN"
    by (fastforce simp: l4_no_hits_def split: if_splits)
  have buckets: "l4_get scores ''visual'' = Num 0" "l4_get scores ''auditory'' = Num 0"
    "l4_get scores ''readWrite'' = Num 0" "l4_get scores ''kinesthetic'' = Num 0"
    using inv by (simp_all add: l4_no_hits_def l4_get_def)
  have tot: "?tot = Num 0 \<or> ?tot = NaN"
    using vals by (intro l4_total_no_hits) auto
  then have pct: "js_percentage (Num 0) ?tot = NaN" by auto
  have dom: "foldl l4_dominant_step (''visual'', Num 0) scores = (''visual'', Num 0)"
    using vals by (rule l4_dominant_no_hits)
  have "calculateLayer4 answers =
      Inr \<lparr>l4_dominantModality = ''visual'', l4_scores = scores,
           l4_percentages = \<lparr>p_visual = NaN, p_auditory = NaN, p_readWrite = NaN, p_kinesthetic = NaN\<rparr>\<rparr>"
    unfolding calculateLayer4_def Let_def loop by (simp add: buckets pct dom)
  then show ?thesis using returns by auto
qed

text \<open>An object with an own property toString as the answer makes Layer 4 throw.\<close>

lemma calculateLayer4_throws_on_object:
  "calculateLayer4 [''L4_Q23'' \<mapsto> JObj [(''toString'', JNum 1)]] = Inl conversion_error"
  by code_simp

section \<open>Properties of Layer 2\<close>

lemma l2_step_mixed: "l2_step answers ''mixed'' questionPrefix scores i = Inr scores"
  by (simp add: l2_step_def Let_def js_or_def)

lemma js_includes_Blurred:
  "\<not> js_includes ''Blurred'' ''Architect''" "\<not> js_includes ''Blurred'' ''Alchemist''"
  by code_simp+

text \<open>
  Claim C6 says that on the mixed path \<^verbatim>\<open>calculateLayer2\<close> tallies the answers to
  \<^verbatim>\<open>L2_Qm9\<close> .. \<^verbatim>\<open>L2_Qm16\<close> through a mapping for that path and returns the arg-max
  subtype.  The code has a mapping for the architect and the alchemist path only: on a
  \<^verbatim>\<open>Blurred\<close> Layer 1 result the path is \<^verbatim>\<open>mixed\<close> and, whatever the answers are, nothing
  is tallied and the subtype is the empty string.
\<close>

theorem calculateLayer2_mixed_path_tallies_nothing:
  "calculateLayer2 answers \<lparr>l1_type = ''Blurred'', architectCount = a, alchemistCount = b\<rparr>
     = Inr \<lparr>l2_subtype = [], l2_path = ''mixed'', l2_scores = []\<rparr>"
proof -
  have loop: "for_loop (l2_step answers ''mixed'' ''L2_Qm'') [] [9..<17] = Inr []"
    by (rule for_loop_unchanged) (rule l2_step_mixed)
  have sel: "(if js_includes ''Blurred'' ''Architect'' then (''architect'', ''L2_Q'')
              else if js_includes ''Blurred'' ''Alchemist'' then (''alchemist'', ''L2_Q'')
              else (''mixed'', ''L2_Qm'')) = (''mixed'', ''L2_Qm'')"
    by (simp add: js_includes_Blurred)
  show ?thesis
    unfolding calculateLayer2_def Let_def layer1_result.simps sel fst_conv snd_conv loop
    by (simp add: capitalize_def)
qed

section \<open>Properties of token redemption\<close>

lemma verify_rows_mem:
  "(t, q) \<in> set (verify_rows db now token) \<longleftrightarrow>
     t \<in> set (pdf_download_tokens db) \<and> q \<in> set (quiz_results db) \<and> t_token t = token
     \<and> now < t_expires_at t \<and> t_quiz_result_id t = qr_id q"
  by (auto simp: verify_rows_def)

lemma verifyDownloadToken_Success:
  "verifyDownloadToken db now token = Success r \<Longrightarrow> r \<in> set (verify_rows db now token)"
  by (auto simp: verifyDownloadToken_def split: list.splits)

lemma verifyDownloadToken_Failure:
  "verify_rows db now token = [] \<Longrightarrow>
     verifyDownloadToken db now token = Failure (Message ''Invalid or expired token'')"
  by (simp add: verifyDownloadToken_def)

lemma verify_rows_expired:
  assumes "\<forall>t \<in> set (pdf_download_tokens db). t_token t = token \<longrightarrow> t_expires_at t \<le> now"
  shows "verify_rows db now token = []"
proof -
  have "filter (\<lambda>t. t_token t = token \<and> t_expires_at t > now) (pdf_download_tokens db) = []"
    using assms by (auto simp: filter_empty_conv)
  then show ?thesis by (simp add: verify_rows_def)
qed

lemma createDownloadToken_Success:
  assumes "createDownloadToken db issued token resultId expiresAt = (db', Success ())"
  shows "pdf_download_tokens db' = pdf_download_tokens db @
           [\<lparr>t_token = token, t_quiz_result_id = resultId, t_expires_at = expiresAt,
             t_created_at = issued\<rparr>]"
    and "\<forall>t \<in> set (pdf_download_tokens db). t_token t \<noteq> token"
    and "quiz_results db' = quiz_results db"
  using assms by (auto simp: createDownloadToken_def split: if_splits)

text \<open>
  Claim C3.  Redemption treats the validity window as half open: \<^verbatim>\<open>verifyDownloadToken\<close>
  succeeds only on a token row whose \<^verbatim>\<open>expires_at\<close> is strictly greater than the current
  time; when every row of the token has \<^verbatim>\<open>expires_at\<close> at or before the current time it
  fails with \<^verbatim>\<open>Invalid or expired token\<close>.  So a token created with an expiry instant is
  rejected at that instant and at every later time, and a token issued with a time to live
  of 0 and redeemed at once is rejected.
\<close>

theorem verifyDownloadToken_half_open:
  "(verifyDownloadToken db now token = Success (t, q) \<longrightarrow>
      t \<in> set (pdf_download_tokens db) \<and> t_token t = token \<and> now < t_expires_at t
      \<and> q \<in> set (quiz_results db) \<and> qr_id q = t_quiz_result_id t)
   \<and> ((\<forall>t \<in> set (pdf_download_tokens db). t_token t = token \<longrightarrow> t_expires_at t \<le> now) \<longrightarrow>
      verifyDownloadToken db now token = Failure (Message ''Invalid or expired token''))
   \<and> (createDownloadToken db issued token resultId expiresAt = (db', Success ()) \<and> expiresAt \<le> now \<longrightarrow>
      verifyDownloadToken db' now token = Failure (Message ''Invalid or expired token''))
   \<and> (createDownloadToken db issued token resultId (issued + 0) = (db', Success ()) \<longrightarrow>
      verifyDownloadToken db' issued token = Failure (Message ''Invalid or expired token''))"
proof -
  have rejected: "verifyDownloadToken db' now' token = Failure (Message ''Invalid or expired token'')"
    if c: "createDownloadToken db issued token resultId e = (db', Success ())" and le: "e \<le> now'"
    for e now'
  proof -
    have "\<forall>t \<in> set (pdf_download_tokens db'). t_token t = token \<longrightarrow> t_expires_at t \<le> now'"
      using createDownloadToken_Success(1,2)[OF c] le by auto
    then show ?thesis
      by (simp add: verify_rows_expired verifyDownloadToken_Failure)
  qed
  show ?thesis
  proof (intro conjI impI)
    assume "verifyDownloadToken db now token = Success (t, q)"
    then have "(t, q) \<in> set (verify_rows db now token)"
      by (rule verifyDownloadToken_Success)
    then show "t \<in> set (pdf_download_tokens db)" "t_token t = token" "now < t_expires_at t"
      "q \<in> set (quiz_results db)" "qr_id q = t_quiz_result_id t"
      by (simp_all add: verify_rows_mem)
  next
    assume "\<forall>t \<in> set (pdf_download_tokens db). t_token t = token \<longrightarrow> t_expires_at t \<le> now"
    then show "verifyDownloadToken db now token = Failure (Message ''Invalid or expired token'')"
      by (simp add: verify_rows_expired verifyDownloadToken_Failure)
  next
    assume "createDownloadToken db issued token resultId expiresAt = (db', Success ()) \<and> expiresAt \<le> now"
    then show "verifyDownloadToken db' now token = Failure (Message ''Invalid or expired token'')"
      using rejected by blast
  next
    assume "createDownloadToken db issued token resultId (issued + 0) = (db', Success ())"
    then show "verifyDownloadToken db' issued token = Failure (Message ''Invalid or expired token'')"
      using rejected[of "issued + 0" issued] by simp
  qed
qed

lemma example_db_tokens: "pdf_download_tokens example_db = [example_token_row]"
  by code_simp

lemma example_verify_99: "is_success (verifyDownloadToken example_db 99 ''tok'')"
  by code_simp

lemma example_create_ttl0:
  "createDownloadToken example_db 50 ''new'' ''r1'' (50 + 0) =
     (fst (createDownloadToken example_db 50 ''new'' ''r1'' (50 + 0)), Success ())"
  by code_simp

theorem verifyDownloadToken_half_open_witness:
  "(\<exists>t q. verifyDownloadToken example_db 99 ''tok'' = Success (t, q) \<and> 99 < t_expires_at t)
   \<and> list_all (\<lambda>t. t_token t = ''tok'' \<longrightarrow> t_expires_at t \<le> 100) (pdf_download_tokens example_db)
   \<and> verifyDownloadToken example_db 100 ''tok'' = Failure (Message ''Invalid or expired token'')
   \<and> snd (createDownloadToken example_db 50 ''new'' ''r1'' (50 + 0)) = Success ()
   \<and> verifyDownloadToken (fst (createDownloadToken example_db 50 ''new'' ''r1'' (50 + 0))) 50 ''new''
        = Failure (Message ''Invalid or expired token'')"
proof -
  obtain t q where ok: "verifyDownloadToken example_db 99 ''tok'' = Success (t, q)"
    using example_verify_99 by (auto simp: is_success_def split: db_result.splits)
  have before: "99 < t_expires_at t"
    using verifyDownloadToken_half_open[of example_db 99 "''tok''" t q] ok by blast
  have expired: "\<forall>t \<in> set (pdf_download_tokens example_db). t_token t = ''tok'' \<longrightarrow> t_expires_at t \<le> 100"
    by (simp add: example_db_tokens example_token_row_def)
  have at_expiry: "verifyDownloadToken example_db 100 ''tok'' = Failure (Message ''Invalid or expired token'')"
    using verifyDownloadToken_half_open[of example_db 100 "''tok''"] expired by blast
  have ttl0: "verifyDownloadToken (fst (createDownloadToken example_db 50 ''new'' ''r1'' (50 + 0))) 50 ''new''
        = Failure (Message ''Invalid or expired token'')"
    using verifyDownloadToken_half_open[where db = example_db and issued = 50 and token = "''new''"
        and resultId = "''r1''"
        and db' = "fst (createDownloadToken example_db 50 ''new'' ''r1'' (50 + 0))"]
      example_create_ttl0 by blast
  have created: "snd (createDownloadToken example_db 50 ''new'' ''r1'' (50 + 0)) = Success ()"
    using example_create_ttl0 by (metis snd_conv)
  show ?thesis
    using ok before expired at_expiry ttl0 created by (auto simp: list_all_iff)
qed

section \<open>Properties of the download endpoint\<close>

lemma download_Failure:
  "s \<noteq> [] \<Longrightarrow> verifyDownloadToken db now s = Failure e \<Longrightarrow>
     download getSignedUrl db now (JStr s) = Json 404 ''Invalid or unknown link''"
  by (simp add: download_def)

lemma download_Success:
  "s \<noteq> [] \<Longrightarrow> verifyDownloadToken db now s = Success (t, q) \<Longrightarrow>
     download getSignedUrl db now (JStr s) =
       (case getSignedUrl (qr_s3_key q) (7 * 60 * 60) of
          Inl m \<Rightarrow> Json 500 ''Could not generate download link''
        | Inr url \<Rightarrow> Redirect url)"
  by (simp add: download_def generatePresignedPdfUrl_def split: sum.splits)

text \<open>
  Claim C5 says that the endpoint answers a missing token, a never-issued token, an expired
  token and a storage failure with four different responses.  It does not: the lookup's one
  query tests the token and the expiry together, so the handler cannot tell an expired
  token from one that was never issued, and both get 404 \<^verbatim>\<open>Invalid or unknown link\<close>.  On
  the example store, whose only token \<^verbatim>\<open>tok\<close> expired at time 100, the expired token and a
  token that was never issued get the very same response at time 200.  (The older handler
  of \<^verbatim>\<open>GET /download\<close> in \<^verbatim>\<open>s3.js\<close> answers an expired token with 410
  \<^verbatim>\<open>Link has expired\<close>.)
\<close>

theorem download_expired_same_as_unknown:
  "map t_token (pdf_download_tokens example_db) = [''tok'']
   \<and> map t_expires_at (pdf_download_tokens example_db) = [100]
   \<and> download signing example_db 200 (JStr ''tok'') = Json 404 ''Invalid or unknown link''
   \<and> download signing example_db 200 (JStr ''never-issued'') = Json 404 ''Invalid or unknown link''
   \<and> download signing example_db 200 (JStr ''tok'') = download signing example_db 200 (JStr ''never-issued'')"
  by code_simp

text \<open>
  The responses of the handler.  A missing token gets 400 \<^verbatim>\<open>Missing token\<close>; a token that
  is not a string gets 500 \<^verbatim>\<open>Internal server error\<close>; a token with no unexpired row, be it
  never issued or expired, gets 404 \<^verbatim>\<open>Invalid or unknown link\<close>; a valid token whose
  presigned URL cannot be generated gets 500 \<^verbatim>\<open>Could not generate download link\<close>; and a
  valid token whose URL is generated is redirected to it.
\<close>

lemma download_responses:
  "(\<not> js_truthy token \<longrightarrow> download getSignedUrl db now token = Json 400 ''Missing token'')
   \<and> (js_truthy token \<and> (\<forall>s. token \<noteq> JStr s) \<longrightarrow>
        download getSignedUrl db now token = Json 500 ''Internal server error'')
   \<and> (s \<noteq> [] \<and> (\<forall>t \<in> set (pdf_download_tokens db). t_token t = s \<longrightarrow> t_expires_at t \<le> now) \<longrightarrow>
        download getSignedUrl db now (JStr s) = Json 404 ''Invalid or unknown link'')
   \<and> (s \<noteq> [] \<and> verifyDownloadToken db now s = Success (t, q)
        \<and> getSignedUrl (qr_s3_key q) (7 * 60 * 60) = Inl m \<longrightarrow>
        download getSignedUrl db now (JStr s) = Json 500 ''Could not generate download link'')
   \<and> (s \<noteq> [] \<and> verifyDownloadToken db now s = Success (t, q)
        \<and> getSignedUrl (qr_s3_key q) (7 * 60 * 60) = Inr url \<longrightarrow>
        download getSignedUrl db now (JStr s) = Redirect url)
   \<and> distinct [Json 400 ''Missing token'', Json 500 ''Internal server error'',
                Json 404 ''Invalid or unknown link'',
                Json 500 ''Could not generate download link'', Redirect url]"
proof (intro conjI impI)
  assume "\<not> js_truthy token"
  then show "download getSignedUrl db now token = Json 400 ''Missing token''"
    by (simp add: download_def)
next
  assume "js_truthy token \<and> (\<forall>s. token \<noteq> JStr s)"
  then show "download getSignedUrl db now token = Json 500 ''Internal server error''"
    by (cases token) (simp_all add: download_def)
next
  assume a: "s \<noteq> [] \<and> (\<forall>t \<in> set (pdf_download_tokens db). t_token t = s \<longrightarrow> t_expires_at t \<le> now)"
  then have "verifyDownloadToken db now s = Failure (Message ''Invalid or expired token'')"
    by (simp add: verify_rows_expired verifyDownloadToken_Failure)
  then show "download getSignedUrl db now (JStr s) = Json 404 ''Invalid or unknown link''"
    using a download_Failure by blast
next
  assume "s \<noteq> [] \<and> verifyDownloadToken db now s = Success (t, q)
        \<and> getSignedUrl (qr_s3_key q) (7 * 60 * 60) = Inl m"
  then show "download getSignedUrl db now (JStr s) = Json 500 ''Could not generate download link''"
    using download_Success[of s db now t q getSignedUrl] by simp
next
  assume "s \<noteq> [] \<and> verifyDownloadToken db now s = Success (t, q)
        \<and> getSignedUrl (qr_s3_key q) (7 * 60 * 60) = Inr url"
  then show "download getSignedUrl db now (JStr s) = Redirect url"
    using download_Success[of s db now t q getSignedUrl] by simp
next
  show "distinct [Json 400 ''Missing token'', Json 500 ''Internal server error'',
                Json 404 ''Invalid or unknown link'',
                Json 500 ''Could not generate download link'', Redirect url]"
    by simp
qed

text \<open>Each of them on the example store.\<close>

lemma download_responses_example:
  "download signing example_db 99 JUndefined = Json 400 ''Missing token''
   \<and> download signing example_db 99 (JArr [JStr ''tok'', JStr ''tok'']) = Json 500 ''Internal server error''
   \<and> download signing example_db 200 (JStr ''tok'') = Json 404 ''Invalid or unknown link''
   \<and> download signing example_db 200 (JStr ''never-issued'') = Json 404 ''Invalid or unknown link''
   \<and> download failing example_db 99 (JStr ''tok'') = Json 500 ''Could not generate download link''
   \<and> download signing example_db 99 (JStr ''tok'') = Redirect ''https://bucket/r1.pdf?signed''"
  by code_simp


section \<open>Properties of the minted tokens\<close>


lemma card_byte_lists: "card {a :: 8 word list. length a = n} = 256 ^ n"
proof -
  have "{a :: 8 word list. length a = n} = {a. set a \<subseteq> UNIV \<and> length a = n}" by simp
  then show ?thesis
    using card_lists_length_eq[of "UNIV :: 8 word set" n] by (simp add: card_word)
qed

lemma finite_byte_lists: "finite {a :: 8 word list. length a = n}"
  using finite_lists_length_eq[of "UNIV :: 8 word set" n] by simp

lemma card_le_word: "card {x :: 8 word. x \<le> of_nat k} \<le> Suc k"
proof -
  have "{x :: 8 word. x \<le> of_nat k} \<subseteq> of_nat ` {..k}"
  proof
    fix x :: "8 word" assume "x \<in> {x. x \<le> of_nat k}"
    then have "unat x \<le> unat (of_nat k :: 8 word)" by (simp add: word_le_nat_alt)
    also have "\<dots> \<le> k" by (simp add: unat_of_nat)
    finally have "unat x \<in> {..k}" by simp
    moreover have "x = of_nat (unat x)" by simp
    ultimately show "x \<in> of_nat ` {..k}" by (rule rev_image_eqI)
  qed
  then have "card {x :: 8 word. x \<le> of_nat k} \<le> card (of_nat ` {..k} :: 8 word set)"
    by (intro card_mono) auto
  also have "\<dots> \<le> card {..k}" by (rule card_image_le) simp
  finally show ?thesis by simp
qed

lemma card_uuid_parts: "card uuid_parts \<le> 2 ^ 122"
proof -
  have a: "card {x :: 8 word. x \<le> 0x0f} \<le> 16" using card_le_word[of 15] by simp
  have b: "card {y :: 8 word. y \<le> 0x3f} \<le> 64" using card_le_word[of 63] by simp
  have "card uuid_parts = 256 ^ 6 * (card {x :: 8 word. x \<le> 0x0f} * (256 * (card {y :: 8 word. y \<le> 0x3f} * 256 ^ 7)))"
    unfolding uuid_parts_def by (simp add: card_cartesian_product card_byte_lists card_word)
  also have "\<dots> \<le> 256 ^ 6 * (16 * (256 * (64 * 256 ^ 7)))"
    using a b by (intro mult_le_mono le_refl)
  also have "\<dots> = 2 ^ 122" by simp
  finally show ?thesis .
qed

lemma uuid_set_version_assemble:
  assumes "length rnds = 16"
  shows "uuid_set_version rnds =
     uuid_assemble (take 6 rnds, rnds ! 6 AND 0x0f, rnds ! 7, rnds ! 8 AND 0x3f, drop 9 rnds)"
proof -
  obtain b0 b1 b2 b3 b4 b5 b6 b7 b8 rest where r: "rnds = b0 # b1 # b2 # b3 # b4 # b5 # b6 # b7 # b8 # rest"
    using assms by (auto simp: length_Suc_conv numeral_eq_Suc)
  show ?thesis
    unfolding r by (simp add: uuid_set_version_def uuid_assemble_def Let_def)
qed

lemma uuid_set_version_in_parts:
  assumes "length rnds = 16"
  shows "(take 6 rnds, rnds ! 6 AND 0x0f, rnds ! 7, rnds ! 8 AND 0x3f, drop 9 rnds) \<in> uuid_parts"
  using assms by (simp add: uuid_parts_def word_and_le1)

text \<open>
  Claim C7 says that every download token the pipeline mints carries at least 256 bits of
  entropy.  The pipeline mints its tokens with \<^verbatim>\<open>uuidv4()\<close>: of the 128 bits of a version-4
  UUID six are fixed, so there are at most \<open>2 ^ 122\<close> tokens, fewer than the \<open>2 ^ 256\<close> values
  that 256 bits of entropy need.
\<close>

theorem minted_tokens_card: "finite minted_tokens \<and> card minted_tokens \<le> 2 ^ 122 \<and> card minted_tokens < 2 ^ 256"
proof -
  have fin: "finite uuid_parts"
    unfolding uuid_parts_def by (intro finite_cartesian_product finite_byte_lists) simp_all
  have sub: "minted_tokens \<subseteq> (unsafeStringify \<circ> uuid_assemble) ` uuid_parts"
  proof
    fix tok assume "tok \<in> minted_tokens"
    then obtain rnds where len: "length rnds = 16" and tok: "tok = uuidv4 rnds"
      by (auto simp: minted_tokens_def)
    have "tok = (unsafeStringify \<circ> uuid_assemble)
        (take 6 rnds, rnds ! 6 AND 0x0f, rnds ! 7, rnds ! 8 AND 0x3f, drop 9 rnds)"
      by (simp add: tok uuidv4_def uuid_set_version_assemble[OF len])
    then show "tok \<in> (unsafeStringify \<circ> uuid_assemble) ` uuid_parts"
      using uuid_set_version_in_parts[OF len] by (rule image_eqI)
  qed
  have fin2: "finite ((unsafeStringify \<circ> uuid_assemble) ` uuid_parts)" using fin by simp
  have "card minted_tokens \<le> card ((unsafeStringify \<circ> uuid_assemble) ` uuid_parts)"
    using sub fin2 by (rule card_mono[rotated])
  also have "\<dots> \<le> card uuid_parts" using fin by (rule card_image_le)
  also have "\<dots> \<le> 2 ^ 122" by (rule card_uuid_parts)
  finally have c: "card minted_tokens \<le> 2 ^ 122" .
  have "(2::nat) ^ 122 < 2 ^ 256" by simp
  then show ?thesis using c sub fin2 by (auto intro: finite_subset)
qed


section \<open>Properties of saveQuizResult\<close>


lemma upsert_ids: "map qr_id (upsert now v rows) =
   (if v_id v \<in> set (map qr_id rows) then map qr_id rows else map qr_id rows @ [v_id v])"
proof -
  have "map qr_id (map (\<lambda>r. if qr_id r = v_id v then updated_row now v r else r) rows) = map qr_id rows"
    by (induction rows) (simp_all add: updated_row_def)
  moreover have "(\<exists>r \<in> set rows. qr_id r = v_id v) = (v_id v \<in> set (map qr_id rows))"
    by force
  ultimately show ?thesis
    by (simp add: upsert_def inserted_row_def)
qed

lemma upsert_has_id: "v_id v \<in> set (map qr_id (upsert now v rows))"
  by (simp add: upsert_ids)

lemma upsert_distinct: "distinct (map qr_id rows) \<Longrightarrow> distinct (map qr_id (upsert now v rows))"
  by (simp add: upsert_ids)

lemma upsert_twice:
  "upsert t2 v (upsert t1 v rows) =
     map (\<lambda>r. if qr_id r = v_id v then r\<lparr>qr_updated_at := t2\<rparr> else r) (upsert t1 v rows)"
proof -
  have ex: "\<exists>r \<in> set (upsert t1 v rows). qr_id r = v_id v"
    using upsert_has_id[of v t1 rows] by auto
  have upd: "updated_row t2 v r = r\<lparr>qr_updated_at := t2\<rparr>"
    if "r \<in> set (upsert t1 v rows)" "qr_id r = v_id v" for r
    using that by (auto simp: upsert_def updated_row_def inserted_row_def split: if_splits)
  have "upsert t2 v (upsert t1 v rows) =
      map (\<lambda>r. if qr_id r = v_id v then updated_row t2 v r else r) (upsert t1 v rows)"
    using ex unfolding upsert_def[of t2 v "upsert t1 v rows"] by (simp only: if_True)
  also have "\<dots> = map (\<lambda>r. if qr_id r = v_id v then r\<lparr>qr_updated_at := t2\<rparr> else r) (upsert t1 v rows)"
    by (rule map_cong) (auto simp: upd)
  finally show ?thesis .
qed

lemma find_upsert:
  "\<exists>r. find (\<lambda>r. qr_id r = v_id v) (upsert now v rows) = Some r \<and> qr_id r = v_id v
       \<and> qr_pdf_url r = v_pdf_url v \<and> qr_s3_key r = v_s3_key v"
proof -
  have "\<exists>r \<in> set (upsert now v rows). qr_id r = v_id v"
    using upsert_has_id[of v now rows] by auto
  then obtain r where r: "find (\<lambda>r. qr_id r = v_id v) (upsert now v rows) = Some r"
    by (cases "find (\<lambda>r. qr_id r = v_id v) (upsert now v rows)") (auto simp: find_None_iff)
  then have "r \<in> set (upsert now v rows)" "qr_id r = v_id v"
    by (auto simp: find_Some_iff)
  then have "qr_pdf_url r = v_pdf_url v \<and> qr_s3_key r = v_s3_key v"
    by (auto simp: upsert_def updated_row_def inserted_row_def split: if_splits)
  with r \<open>qr_id r = v_id v\<close> show ?thesis by blast
qed

lemma saveQuizResult_cases:
  obtains (thrown) err where "save_values_of rid email name results pdfUrl s3Key = Inl err"
      "\<And>db now. saveQuizResult db now rid email name results pdfUrl s3Key = (db, Failure (Thrown err))"
  | (rejected) v msg where "save_values_of rid email name results pdfUrl s3Key = Inr v" "\<not> quiz_results_accepts v"
      "\<And>db now. saveQuizResult db now rid email name results pdfUrl s3Key = (db, Failure (Rejected msg))"
  | (saved) v where "save_values_of rid email name results pdfUrl s3Key = Inr v" "quiz_results_accepts v"
      "v_id v = rid" "v_pdf_url v = pg_param pdfUrl" "v_s3_key v = pg_param s3Key"
      "\<And>db now. \<exists>r. saveQuizResult db now rid email name results pdfUrl s3Key =
          (db\<lparr>quiz_results := upsert now v (quiz_results db)\<rparr>, Success r)
          \<and> find (\<lambda>r. qr_id r = rid) (upsert now v (quiz_results db)) = Some r"
proof (cases "save_values_of rid email name results pdfUrl s3Key")
  case (Inl err)
  then show ?thesis using thrown by (simp add: saveQuizResult_def)
next
  case (Inr v)
  have v: "v_id v = rid" "v_pdf_url v = pg_param pdfUrl" "v_s3_key v = pg_param s3Key"
    using Inr by (auto simp: save_values_of_def Let_def split: jsval.splits if_splits)
  show ?thesis
  proof (cases "quiz_results_accepts v")
    case False
    then show ?thesis using rejected[OF Inr] Inr by (simp add: saveQuizResult_def)
  next
    case True
    have "\<exists>r. saveQuizResult db now rid email name results pdfUrl s3Key =
          (db\<lparr>quiz_results := upsert now v (quiz_results db)\<rparr>, Success r)
          \<and> find (\<lambda>r. qr_id r = rid) (upsert now v (quiz_results db)) = Some r" for db now
      using find_upsert[of v now "quiz_results db"] Inr True v
      by (auto simp: saveQuizResult_def Let_def)
    then show ?thesis using saved[OF Inr True v] by blast
  qed
qed


lemma filter_unique_key:
  "distinct (map f xs) \<Longrightarrow> find (\<lambda>x. f x = k) xs = Some y \<Longrightarrow> filter (\<lambda>x. f x = k) xs = [y]"
proof (induction xs)
  case Nil
  then show ?case by simp
next
  case (Cons x xs)
  show ?case
  proof (cases "f x = k")
    case True
    then have "y = x" using Cons.prems(2) by simp
    moreover have "\<forall>z \<in> set xs. f z \<noteq> k"
    proof
      fix z assume "z \<in> set xs"
      then have "f z \<in> set (map f xs)" by simp
      moreover have "f x \<notin> set (map f xs)" using Cons.prems(1) by simp
      ultimately show "f z \<noteq> k" using True by metis
    qed
    then have "filter (\<lambda>x. f x = k) xs = []"
      by (simp add: filter_empty_conv)
    ultimately show ?thesis using True by simp
  next
    case False
    then show ?thesis using Cons by simp
  qed
qed

lemma observable_touch:
  "map observable_row (map (\<lambda>r. if P r then r\<lparr>qr_updated_at := t\<rparr> else r) rows) = map observable_row rows"
  by (induction rows) (simp_all add: observable_row_def)

text \<open>
  Claim C9.  Saving is idempotent under repetition.  On a store that respects the primary
  key, a second call of \<^verbatim>\<open>saveQuizResult\<close> with the same id, email, name, results, pdfUrl
  and s3Key leaves the observable state as the first call left it, and the primary key
  still holds.  When the first call succeeds so does the second; then exactly one row has
  that id, its \<^verbatim>\<open>pdf_url\<close> and \<^verbatim>\<open>s3_key\<close> are the values written, and the table is the one
  after the first call but for that row's \<^verbatim>\<open>updated_at\<close>, which is the time of the second
  call.  When the first call fails, both calls leave the store untouched.
\<close>

theorem saveQuizResult_idempotent:
  assumes pk: "primary_key_ok db"
    and first: "saveQuizResult db t1 rid email name results pdfUrl s3Key = (db1, res1)"
    and second: "saveQuizResult db1 t2 rid email name results pdfUrl s3Key = (db2, res2)"
  shows "observable_state db2 = observable_state db1
     \<and> primary_key_ok db2
     \<and> ((\<exists>r1. res1 = Success r1) \<longrightarrow>
          (\<exists>r2. res2 = Success r2
             \<and> filter (\<lambda>r. qr_id r = rid) (quiz_results db2) = [r2]
             \<and> qr_pdf_url r2 = pg_param pdfUrl \<and> qr_s3_key r2 = pg_param s3Key
             \<and> quiz_results db2 =
                 map (\<lambda>r. if qr_id r = rid then r\<lparr>qr_updated_at := t2\<rparr> else r) (quiz_results db1)))
     \<and> ((\<forall>r1. res1 \<noteq> Success r1) \<longrightarrow> db2 = db \<and> res2 = res1)"
proof (cases rule: saveQuizResult_cases[of rid email name results pdfUrl s3Key])
  case (thrown err)
  then show ?thesis using first second pk by auto
next
  case (rejected v msg)
  then show ?thesis using first second pk by auto
next
  case (saved v)
  obtain r1 where r1: "saveQuizResult db t1 rid email name results pdfUrl s3Key =
      (db\<lparr>quiz_results := upsert t1 v (quiz_results db)\<rparr>, Success r1)"
    using saved(6)[of db t1] by blast
  have db1: "db1 = db\<lparr>quiz_results := upsert t1 v (quiz_results db)\<rparr>" and res1: "res1 = Success r1"
    using r1 first by simp_all
  obtain r2 where r2: "saveQuizResult db1 t2 rid email name results pdfUrl s3Key =
      (db1\<lparr>quiz_results := upsert t2 v (quiz_results db1)\<rparr>, Success r2)"
    and f2: "find (\<lambda>r. qr_id r = rid) (upsert t2 v (quiz_results db1)) = Some r2"
    using saved(6)[of db1 t2] by blast
  have db2: "db2 = db1\<lparr>quiz_results := upsert t2 v (quiz_results db1)\<rparr>" and res2: "res2 = Success r2"
    using r2 second by simp_all
  have rows2: "quiz_results db2 =
      map (\<lambda>r. if qr_id r = rid then r\<lparr>qr_updated_at := t2\<rparr> else r) (quiz_results db1)"
    using upsert_twice[of t2 v t1 "quiz_results db"] by (simp add: db2 db1 saved(3))
  have pk1: "distinct (map qr_id (quiz_results db1))"
    using pk by (simp add: db1 primary_key_ok_def upsert_distinct)
  have pk2: "primary_key_ok db2"
    using pk1 by (simp add: db2 primary_key_ok_def upsert_distinct)
  have one: "filter (\<lambda>r. qr_id r = rid) (quiz_results db2) = [r2]"
    using filter_unique_key[of qr_id "quiz_results db2" rid r2] pk2 f2
    by (simp add: primary_key_ok_def db2)
  have art: "qr_pdf_url r2 = pg_param pdfUrl \<and> qr_s3_key r2 = pg_param s3Key"
    using find_upsert[of v t2 "quiz_results db1"] f2 saved(3,4,5) by auto
  have "map observable_row (quiz_results db2) = map observable_row (quiz_results db1)"
    unfolding rows2 by (rule observable_touch)
  moreover have "pdf_download_tokens db2 = pdf_download_tokens db1"
    by (simp add: db2)
  ultimately have obs: "observable_state db2 = observable_state db1"
    by (simp add: observable_state_def)
  show ?thesis
    using obs pk2 one art rows2 res1 res2 by simp
qed

lemma example_save_success: "is_success (snd (example_save empty_db 10))"
  by code_simp

text \<open>The example save, done at time 10 on the empty store and again at time 20.\<close>

theorem saveQuizResult_idempotent_witness:
  "primary_key_ok empty_db
   \<and> is_success (snd (example_save empty_db 10))
   \<and> observable_state (fst (example_save (fst (example_save empty_db 10)) 20))
      = observable_state (fst (example_save empty_db 10))
   \<and> length (filter (\<lambda>r. qr_id r = ''r1'')
        (quiz_results (fst (example_save (fst (example_save empty_db 10)) 20)))) = 1"
proof -
  have pk: "primary_key_ok empty_db"
    by (simp add: primary_key_ok_def empty_db_def)
  have s1: "\<exists>r1. snd (example_save empty_db 10) = Success r1"
    using example_save_success by (simp add: is_success_def split: db_result.splits)
  have first: "saveQuizResult empty_db 10 ''r1'' (JStr '' Ann@Example.com'') (JStr ''Ann'') example_results
       (JStr ''https://bucket/r1.pdf'') (JStr ''r1.pdf'')
       = (fst (example_save empty_db 10), snd (example_save empty_db 10))"
    by (simp add: example_save_def)
  have second: "saveQuizResult (fst (example_save empty_db 10)) 20 ''r1'' (JStr '' Ann@Example.com'')
       (JStr ''Ann'') example_results (JStr ''https://bucket/r1.pdf'') (JStr ''r1.pdf'')
       = (fst (example_save (fst (example_save empty_db 10)) 20),
          snd (example_save (fst (example_save empty_db 10)) 20))"
    by (simp add: example_save_def)
  note inst = saveQuizResult_idempotent[OF pk first second]
  from inst have obs: "observable_state (fst (example_save (fst (example_save empty_db 10)) 20))
      = observable_state (fst (example_save empty_db 10))"
    by (rule conjunct1)
  from inst s1 obtain r2 where
    "filter (\<lambda>r. qr_id r = ''r1'') (quiz_results (fst (example_save (fst (example_save empty_db 10)) 20))) = [r2]"
    by blast
  then have one: "length (filter (\<lambda>r. qr_id r = ''r1'')
        (quiz_results (fst (example_save (fst (example_save empty_db 10)) 20)))) = 1"
    by simp
  show ?thesis
    using pk example_save_success obs one by (intro conjI)
qed


section \<open>Properties of getQuizResultByEmail\<close>


lemma newer_fold_Some:
  "\<exists>r. foldl newer (Some b) rows = Some r \<and> (r = b \<or> r \<in> set rows)
       \<and> qr_created_at b \<le> qr_created_at r \<and> (\<forall>x \<in> set rows. qr_created_at x \<le> qr_created_at r)"
proof (induction rows arbitrary: b)
  case Nil
  then show ?case by simp
next
  case (Cons x xs)
  show ?case
  proof (cases "qr_created_at x > qr_created_at b")
    case True
    then have step: "newer (Some b) x = Some x" by (simp add: newer_def)
    from Cons.IH[of x] obtain r where "foldl newer (Some x) xs = Some r" "r = x \<or> r \<in> set xs"
      "qr_created_at x \<le> qr_created_at r" "\<forall>y \<in> set xs. qr_created_at y \<le> qr_created_at r"
      by blast
    then show ?thesis using True step by auto
  next
    case False
    then have step: "newer (Some b) x = Some b" by (simp add: newer_def)
    from Cons.IH[of b] obtain r where "foldl newer (Some b) xs = Some r" "r = b \<or> r \<in> set xs"
      "qr_created_at b \<le> qr_created_at r" "\<forall>y \<in> set xs. qr_created_at y \<le> qr_created_at r"
      by blast
    then show ?thesis using False step by auto
  qed
qed

lemma order_by_None: "order_by_created_at_desc_limit_1 rows = None \<longleftrightarrow> rows = []"
proof (cases rows)
  case Nil
  then show ?thesis by (simp add: order_by_created_at_desc_limit_1_def)
next
  case (Cons x xs)
  then show ?thesis
    using newer_fold_Some[of x xs] by (auto simp: order_by_created_at_desc_limit_1_def newer_def)
qed

lemma order_by_Some:
  assumes "order_by_created_at_desc_limit_1 rows = Some r"
  shows "r \<in> set rows \<and> (\<forall>x \<in> set rows. qr_created_at x \<le> qr_created_at r)"
proof (cases rows)
  case Nil
  then show ?thesis using assms by (simp add: order_by_created_at_desc_limit_1_def)
next
  case (Cons x xs)
  then show ?thesis
    using newer_fold_Some[of x xs] assms by (auto simp: order_by_created_at_desc_limit_1_def newer_def)
qed

lemma sql_like_percent_all: "sql_like ''%'' s"
  by (induction s) simp_all

lemma sql_like_literal:
  "no_wildcards q \<Longrightarrow> sql_like (q @ ps) s \<longleftrightarrow> (\<exists>s'. s = q @ s' \<and> sql_like ps s')"
proof (induction q arbitrary: s)
  case Nil
  then show ?case by simp
next
  case (Cons c q)
  then have c: "c \<noteq> CHR ''%''" "c \<noteq> CHR ''_''" "c \<noteq> CHR 0x5C" and q: "no_wildcards q"
    by (simp_all add: no_wildcards_def)
  show ?case
  proof (cases s)
    case Nil
    then show ?thesis using c by simp
  next
    case (Cons d ds)
    then show ?thesis using c Cons.IH[OF q, of ds] by auto
  qed
qed

lemma sql_like_percent:
  "sql_like (CHR ''%'' # ps) s \<longleftrightarrow> (\<exists>a b. s = a @ b \<and> sql_like ps b)"
proof (induction s)
  case Nil
  then show ?case by simp
next
  case (Cons c cs)
  have "sql_like (CHR ''%'' # ps) (c # cs) \<longleftrightarrow> sql_like ps (c # cs) \<or> sql_like (CHR ''%'' # ps) cs"
    by simp
  also have "\<dots> \<longleftrightarrow> sql_like ps (c # cs) \<or> (\<exists>a b. cs = a @ b \<and> sql_like ps b)"
    using Cons.IH by simp
  also have "\<dots> \<longleftrightarrow> (\<exists>a b. c # cs = a @ b \<and> sql_like ps b)"
  proof
    assume "sql_like ps (c # cs) \<or> (\<exists>a b. cs = a @ b \<and> sql_like ps b)"
    then show "\<exists>a b. c # cs = a @ b \<and> sql_like ps b"
    proof
      assume "sql_like ps (c # cs)"
      then have "c # cs = [] @ (c # cs) \<and> sql_like ps (c # cs)" by simp
      then show ?thesis by blast
    next
      assume "\<exists>a b. cs = a @ b \<and> sql_like ps b"
      then obtain a b where "cs = a @ b" "sql_like ps b" by blast
      then have "c # cs = (c # a) @ b \<and> sql_like ps b" by simp
      then show ?thesis by blast
    qed
  next
    assume "\<exists>a b. c # cs = a @ b \<and> sql_like ps b"
    then obtain a b where ab: "c # cs = a @ b" "sql_like ps b" by blast
    show "sql_like ps (c # cs) \<or> (\<exists>a b. cs = a @ b \<and> sql_like ps b)"
    proof (cases a)
      case Nil
      then show ?thesis using ab by simp
    next
      case (Cons a1 as)
      then have "cs = as @ b" using ab by simp
      then show ?thesis using ab by blast
    qed
  qed
  finally show ?case .
qed

lemma js_includes_iff: "js_includes s q \<longleftrightarrow> (\<exists>a b. s = a @ q @ b)"
proof (induction s)
  case Nil
  then show ?case by auto
next
  case (Cons c cs)
  have "js_includes (c # cs) q \<longleftrightarrow> prefix q (c # cs) \<or> (\<exists>a b. cs = a @ q @ b)"
    using Cons.IH by simp
  also have "\<dots> \<longleftrightarrow> (\<exists>a b. c # cs = a @ q @ b)"
  proof
    assume "prefix q (c # cs) \<or> (\<exists>a b. cs = a @ q @ b)"
    then show "\<exists>a b. c # cs = a @ q @ b"
    proof
      assume "prefix q (c # cs)"
      then obtain b where "c # cs = q @ b" by (auto simp: prefix_def)
      then have "c # cs = [] @ q @ b" by simp
      then show ?thesis by blast
    next
      assume "\<exists>a b. cs = a @ q @ b"
      then obtain a b where "cs = a @ q @ b" by blast
      then have "c # cs = (c # a) @ q @ b" by simp
      then show ?thesis by blast
    qed
  next
    assume "\<exists>a b. c # cs = a @ q @ b"
    then obtain a b where ab: "c # cs = a @ q @ b" by blast
    show "prefix q (c # cs) \<or> (\<exists>a b. cs = a @ q @ b)"
    proof (cases a)
      case Nil
      then show ?thesis using ab by (auto simp: prefix_def)
    next
      case (Cons a1 as)
      then have "cs = as @ q @ b" using ab by simp
      then show ?thesis by blast
    qed
  qed
  finally show ?case .
qed

lemma sql_like_substring:
  assumes "no_wildcards q"
  shows "sql_like (''%'' @ q @ ''%'') s \<longleftrightarrow> js_includes s q"
proof -
  have "sql_like (''%'' @ q @ ''%'') s \<longleftrightarrow> (\<exists>a b. s = a @ b \<and> sql_like (q @ ''%'') b)"
    using sql_like_percent[of "q @ ''%''" s] by simp
  also have "\<dots> \<longleftrightarrow> (\<exists>a b. s = a @ b \<and> (\<exists>s'. b = q @ s' \<and> sql_like ''%'' s'))"
    using sql_like_literal[OF assms, of "''%''"] by simp
  also have "\<dots> \<longleftrightarrow> (\<exists>a s'. s = a @ q @ s')"
    using sql_like_percent_all by auto
  also have "\<dots> \<longleftrightarrow> js_includes s q"
    by (simp add: js_includes_iff)
  finally show ?thesis .
qed


lemma lower_char_idem: "lower_char (lower_char c) = lower_char c"
  by (simp add: lower_char_def Let_def)

lemma lower_char_percent: "lower_char CHR ''%'' = CHR ''%''"
  by (simp add: lower_char_def Let_def)

lemma sql_lower_normalized: "sql_lower (js_trim (js_toLowerCase e)) = js_trim (js_toLowerCase e)"
proof -
  have "set (js_trim s) \<subseteq> set s" for s
  proof
    fix c assume "c \<in> set (js_trim s)"
    then have "c \<in> set (dropWhile js_whitespace (rev (dropWhile js_whitespace s)))"
      by (simp add: js_trim_def)
    then have "c \<in> set (rev (dropWhile js_whitespace s))" by (rule set_dropWhileD)
    then have "c \<in> set (dropWhile js_whitespace s)" by simp
    then show "c \<in> set s" by (rule set_dropWhileD)
  qed
  then have "set (js_trim (js_toLowerCase e)) \<subseteq> set (js_toLowerCase e)" .
  then have "\<forall>c \<in> set (js_trim (js_toLowerCase e)). lower_char c = c"
    by (auto simp: js_toLowerCase_def lower_char_idem)
  then show ?thesis
    unfolding sql_lower_def by (simp add: map_idI)
qed

lemma sql_ilike_substring:
  assumes "no_wildcards (js_trim (js_toLowerCase e))"
  shows "sql_ilike subject (''%'' @ js_trim (js_toLowerCase e) @ ''%'')
     \<longleftrightarrow> js_includes (sql_lower subject) (js_trim (js_toLowerCase e))"
proof -
  have "sql_lower (''%'' @ js_trim (js_toLowerCase e) @ ''%'') = ''%'' @ js_trim (js_toLowerCase e) @ ''%''"
    using sql_lower_normalized[of e] by (simp add: sql_lower_def lower_char_percent)
  then show ?thesis
    unfolding sql_ilike_def using sql_like_substring[OF assms] by simp
qed

text \<open>
  Claim C10.  When no stored row's email equals the lowercased, trimmed query email,
  \<^verbatim>\<open>getQuizResultByEmail\<close> answers with the most recent row whose email matches the
  pattern \<^verbatim>\<open>%<normalized email>%\<close> under \<^verbatim>\<open>ILIKE\<close>, and fails with \<^verbatim>\<open>Quiz result not found\<close>
  if there is none; a row it returns is a row of another address that matches the pattern
  (for a query without the pattern characters: that contains the query as a substring).
  So for some store and query the lookup succeeds with a result stored under a different
  address that merely contains the query.
\<close>

theorem getQuizResultByEmail_fallback:
  "((\<forall>r \<in> set (quiz_results db). sql_lower (sql_trim (qr_email r)) \<noteq> js_trim (js_toLowerCase e)) \<longrightarrow>
      getQuizResultByEmail db (JStr e) =
        (case order_by_created_at_desc_limit_1
                (filter (\<lambda>r. sql_ilike (qr_email r) (''%'' @ js_trim (js_toLowerCase e) @ ''%''))
                   (quiz_results db)) of
           Some r \<Rightarrow> Success r
         | None \<Rightarrow> Failure (Message ''Quiz result not found''))
      \<and> (\<forall>r. getQuizResultByEmail db (JStr e) = Success r \<longrightarrow>
            r \<in> set (quiz_results db)
            \<and> sql_lower (sql_trim (qr_email r)) \<noteq> js_trim (js_toLowerCase e)
            \<and> sql_ilike (qr_email r) (''%'' @ js_trim (js_toLowerCase e) @ ''%'')
            \<and> (no_wildcards (js_trim (js_toLowerCase e)) \<longrightarrow>
                 js_includes (sql_lower (qr_email r)) (js_trim (js_toLowerCase e)))))
   \<and> (\<exists>db' e' r'. getQuizResultByEmail db' (JStr e') = Success r'
          \<and> qr_email r' \<noteq> js_trim (js_toLowerCase e')
          \<and> js_includes (qr_email r') (js_trim (js_toLowerCase e')))"
proof (intro conjI impI)
  assume none: "\<forall>r \<in> set (quiz_results db). sql_lower (sql_trim (qr_email r)) \<noteq> js_trim (js_toLowerCase e)"
  let ?q = "js_trim (js_toLowerCase e)"
  let ?fb = "order_by_created_at_desc_limit_1
                (filter (\<lambda>r. sql_ilike (qr_email r) (''%'' @ ?q @ ''%'')) (quiz_results db))"
  have "filter (\<lambda>r. sql_lower (sql_trim (qr_email r)) = ?q) (quiz_results db) = []"
    using none by (simp add: filter_empty_conv)
  then have exact: "order_by_created_at_desc_limit_1
      (filter (\<lambda>r. sql_lower (sql_trim (qr_email r)) = ?q) (quiz_results db)) = None"
    by (simp add: order_by_None)
  show eq: "getQuizResultByEmail db (JStr e) =
      (case ?fb of Some r \<Rightarrow> Success r | None \<Rightarrow> Failure (Message ''Quiz result not found''))"
    by (simp add: getQuizResultByEmail_def Let_def exact)
  show "\<forall>r. getQuizResultByEmail db (JStr e) = Success r \<longrightarrow>
            r \<in> set (quiz_results db)
            \<and> sql_lower (sql_trim (qr_email r)) \<noteq> ?q
            \<and> sql_ilike (qr_email r) (''%'' @ ?q @ ''%'')
            \<and> (no_wildcards ?q \<longrightarrow> js_includes (sql_lower (qr_email r)) ?q)"
  proof (intro allI impI)
    fix r assume "getQuizResultByEmail db (JStr e) = Success r"
    then have "?fb = Some r" unfolding eq by (simp split: option.splits)
    then have "r \<in> set (filter (\<lambda>r. sql_ilike (qr_email r) (''%'' @ ?q @ ''%'')) (quiz_results db))"
      using order_by_Some by blast
    then have r: "r \<in> set (quiz_results db)" "sql_ilike (qr_email r) (''%'' @ ?q @ ''%'')"
      by simp_all
    show "r \<in> set (quiz_results db)
            \<and> sql_lower (sql_trim (qr_email r)) \<noteq> ?q
            \<and> sql_ilike (qr_email r) (''%'' @ ?q @ ''%'')
            \<and> (no_wildcards ?q \<longrightarrow> js_includes (sql_lower (qr_email r)) ?q)"
      using r none sql_ilike_substring[of e "qr_email r"] by blast
  qed
next
  have "is_success (getQuizResultByEmail example_lookup_db (JStr ''anna@example.com''))"
    by code_simp
  then obtain r where r: "getQuizResultByEmail example_lookup_db (JStr ''anna@example.com'') = Success r"
    by (auto simp: is_success_def split: db_result.splits)
  have "(case getQuizResultByEmail example_lookup_db (JStr ''anna@example.com'') of
           Success r \<Rightarrow> qr_email r \<noteq> js_trim (js_toLowerCase ''anna@example.com'')
              \<and> js_includes (qr_email r) (js_trim (js_toLowerCase ''anna@example.com''))
         | Failure x \<Rightarrow> False)"
    by code_simp
  then have "qr_email r \<noteq> js_trim (js_toLowerCase ''anna@example.com'')
      \<and> js_includes (qr_email r) (js_trim (js_toLowerCase ''anna@example.com''))"
    by (simp add: r)
  then show "\<exists>db' e' r'. getQuizResultByEmail db' (JStr e') = Success r'
          \<and> qr_email r' \<noteq> js_trim (js_toLowerCase e')
          \<and> js_includes (qr_email r') (js_trim (js_toLowerCase e'))"
    using r by blast
qed

lemma example_lookup_no_exact:
  "\<forall>r \<in> set (quiz_results example_lookup_db).
      sql_lower (sql_trim (qr_email r)) \<noteq> js_trim (js_toLowerCase ''anna@example.com'')"
  by code_simp

lemma example_lookup_found:
  "(case getQuizResultByEmail example_lookup_db (JStr ''anna@example.com'') of
      Success r \<Rightarrow> qr_email r | Failure x \<Rightarrow> []) = ''joanna@example.com''"
  by code_simp

text \<open>
  The store holds one result, saved for \<^verbatim>\<open>Joanna@Example.com\<close>; the query
  \<^verbatim>\<open>anna@example.com\<close> finds it.
\<close>

theorem getQuizResultByEmail_fallback_witness:
  "list_all (\<lambda>r. sql_lower (sql_trim (qr_email r)) \<noteq> js_trim (js_toLowerCase ''anna@example.com''))
     (quiz_results example_lookup_db)
   \<and> (\<exists>r. getQuizResultByEmail example_lookup_db (JStr ''anna@example.com'') = Success r
          \<and> qr_email r = ''joanna@example.com''
          \<and> sql_ilike (qr_email r) (''%'' @ js_trim (js_toLowerCase ''anna@example.com'') @ ''%''))"
proof -
  note none = example_lookup_no_exact
  have "is_success (getQuizResultByEmail example_lookup_db (JStr ''anna@example.com''))"
    by code_simp
  then obtain r where r: "getQuizResultByEmail example_lookup_db (JStr ''anna@example.com'') = Success r"
    by (auto simp: is_success_def split: db_result.splits)
  have email: "qr_email r = ''joanna@example.com''"
    using example_lookup_found by (simp add: r)
  have "sql_ilike (qr_email r) (''%'' @ js_trim (js_toLowerCase ''anna@example.com'') @ ''%'')"
    using getQuizResultByEmail_fallback[of example_lookup_db "''anna@example.com''"] none r by blast
  then show ?thesis using none r email by (auto simp: list_all_iff)
qed

end
